theory Spec2Isabelle
  imports Complex_Main "HOL-Library.Log_Nat"
begin

section \<open>Python values\<close>

text \<open>
  The signal engine lives in \<^verbatim>\<open>signals.py\<close>. Its functions are embedded here as HOL
  functions. Whatever a Python function does besides returning a value is explicit:
  an exception that leaves a function is the \<open>Inl\<close> branch of a sum, the network, the
  clock and the process environment are fields of a \<open>world\<close> record, and the
  third-party numerical code (the \<^verbatim>\<open>ta\<close> indicators, scikit-learn's logistic regression)
  is a parameter. Output written with \<^verbatim>\<open>print\<close> is not modelled.
\<close>

datatype py_error =
  AttributeError | TypeError | ValueError | IndexError | RequestError | LibraryError

definition bind_err :: "py_error + 'a \<Rightarrow> ('a \<Rightarrow> py_error + 'b) \<Rightarrow> py_error + 'b" where
  "bind_err m f = (case m of Inl e \<Rightarrow> Inl e | Inr x \<Rightarrow> f x)"

subsection \<open>Floats\<close>

text \<open>
  A Python or numpy float is a finite number, an infinity or NaN; signed zeros are not
  told apart. The special values follow IEEE 754 as numpy applies it: every comparison
  with NaN is false, and a division by zero gives an infinity or NaN instead of raising.
  Two families of operations follow. \<open>fl_add\<close>, \<open>fl_sub\<close>, \<open>fl_mul\<close> and \<open>fl_div\<close> compute
  on the exact values; they build the columns of the feature frame and the forward
  return of the labels. \<open>f_add\<close>, \<open>f_sub\<close>, \<open>f_mul\<close> and \<open>f_div\<close>, further down, round
  as binary64 does; they are the scalar arithmetic of \<^verbatim>\<open>price_model_signal\<close> and
  \<^verbatim>\<open>decide_direction\<close>.
\<close>

datatype fl = NaN | PInf | NInf | Fin real

fun fl_neg :: "fl \<Rightarrow> fl" where
  "fl_neg NaN = NaN"
| "fl_neg PInf = NInf"
| "fl_neg NInf = PInf"
| "fl_neg (Fin a) = Fin (- a)"

fun fl_add :: "fl \<Rightarrow> fl \<Rightarrow> fl" where
  "fl_add (Fin a) (Fin b) = Fin (a + b)"
| "fl_add NaN _ = NaN"
| "fl_add _ NaN = NaN"
| "fl_add PInf NInf = NaN"
| "fl_add NInf PInf = NaN"
| "fl_add PInf _ = PInf"
| "fl_add NInf _ = NInf"
| "fl_add (Fin a) PInf = PInf"
| "fl_add (Fin a) NInf = NInf"

definition fl_sub :: "fl \<Rightarrow> fl \<Rightarrow> fl" where
  "fl_sub a b = fl_add a (fl_neg b)"

definition inf_times :: "bool \<Rightarrow> real \<Rightarrow> fl" where
  \<comment> \<open>an infinity (positive when the flag is set) times a finite number\<close>
  "inf_times pos a =
     (if a = 0 then NaN else if (0 < a) = pos then PInf else NInf)"

fun fl_mul :: "fl \<Rightarrow> fl \<Rightarrow> fl" where
  "fl_mul (Fin a) (Fin b) = Fin (a * b)"
| "fl_mul NaN _ = NaN"
| "fl_mul _ NaN = NaN"
| "fl_mul PInf PInf = PInf"
| "fl_mul PInf NInf = NInf"
| "fl_mul NInf PInf = NInf"
| "fl_mul NInf NInf = PInf"
| "fl_mul PInf (Fin a) = inf_times True a"
| "fl_mul NInf (Fin a) = inf_times False a"
| "fl_mul (Fin a) PInf = inf_times True a"
| "fl_mul (Fin a) NInf = inf_times False a"

fun fl_div :: "fl \<Rightarrow> fl \<Rightarrow> fl" where
  "fl_div (Fin a) (Fin b) =
     (if b = 0 then (if a = 0 then NaN else if 0 < a then PInf else NInf)
      else Fin (a / b))"
| "fl_div NaN _ = NaN"
| "fl_div _ NaN = NaN"
| "fl_div (Fin a) PInf = Fin 0"
| "fl_div (Fin a) NInf = Fin 0"
| "fl_div PInf (Fin b) = (if 0 \<le> b then PInf else NInf)"
| "fl_div NInf (Fin b) = (if 0 \<le> b then NInf else PInf)"
| "fl_div PInf _ = NaN"
| "fl_div NInf _ = NaN"

fun fl_gt :: "fl \<Rightarrow> fl \<Rightarrow> bool" where
  "fl_gt (Fin a) (Fin b) = (b < a)"
| "fl_gt NaN _ = False"
| "fl_gt _ NaN = False"
| "fl_gt _ PInf = False"
| "fl_gt NInf _ = False"
| "fl_gt PInf _ = True"
| "fl_gt (Fin a) NInf = True"

fun fl_ge :: "fl \<Rightarrow> fl \<Rightarrow> bool" where
  "fl_ge (Fin a) (Fin b) = (b \<le> a)"
| "fl_ge NaN _ = False"
| "fl_ge _ NaN = False"
| "fl_ge PInf _ = True"
| "fl_ge _ NInf = True"
| "fl_ge NInf _ = False"
| "fl_ge (Fin a) PInf = False"

definition fl_le :: "fl \<Rightarrow> fl \<Rightarrow> bool" where
  "fl_le a b = fl_ge b a"

definition is_finite :: "fl \<Rightarrow> bool" where
  "is_finite x = (case x of Fin _ \<Rightarrow> True | _ \<Rightarrow> False)"

subsection \<open>Binary64 rounding\<close>

text \<open>
  A result of Python's float arithmetic is the exact result rounded to the nearest
  binary64 value, a tie going to the even significand, and to an infinity from
  \<open>2 ^ 1024 - 2 ^ 970\<close> on. In units of \<open>2 ^ - 1074\<close>, the smallest subnormal, a
  magnitude below \<open>2 ^ 53\<close> is rounded to an integer, and a larger one to a multiple of the
  power of two that leaves 53 bits. A float literal denotes the value nearest to its
  decimal.
\<close>

definition round_half_even :: "real \<Rightarrow> int" where
  "round_half_even x =
     (let f = \<lfloor>x\<rfloor>; d = x - of_int f
      in if d < 1 / 2 then f else if 1 / 2 < d then f + 1
         else if even f then f else f + 1)"

definition b64_round :: "real \<Rightarrow> fl" where
  "b64_round x =
     (let a = \<bar>x\<bar> * 2 ^ 1074;
          k = nat (bitlen \<lfloor>a\<rfloor> - 53);
          r = of_int (round_half_even (a / 2 ^ k)) * 2 ^ k
      in if 2 ^ 2098 \<le> r then (if 0 < x then PInf else NInf)
         else Fin (sgn x * r / 2 ^ 1074))"

definition lit :: "real \<Rightarrow> fl" where
  \<comment> \<open>a decimal literal of the source, as the float it denotes\<close>
  "lit x = b64_round x"

definition f_add :: "fl \<Rightarrow> fl \<Rightarrow> fl" where
  "f_add a b = (case (a, b) of (Fin x, Fin y) \<Rightarrow> b64_round (x + y) | _ \<Rightarrow> fl_add a b)"

definition f_sub :: "fl \<Rightarrow> fl \<Rightarrow> fl" where
  "f_sub a b = f_add a (fl_neg b)"

definition f_mul :: "fl \<Rightarrow> fl \<Rightarrow> fl" where
  "f_mul a b = (case (a, b) of (Fin x, Fin y) \<Rightarrow> b64_round (x * y) | _ \<Rightarrow> fl_mul a b)"

definition f_div :: "fl \<Rightarrow> fl \<Rightarrow> fl" where
  "f_div a b =
     (case (a, b) of
        (Fin x, Fin y) \<Rightarrow> if y = 0 then fl_div a b else b64_round (x / y)
      | _ \<Rightarrow> fl_div a b)"

subsection \<open>Series\<close>

text \<open>
  A pandas Series is a list. \<^verbatim>\<open>s.shift(p)\<close> moves the values \<open>p\<close> places towards the
  end (towards the start when \<open>p\<close> is negative) and fills the places that have no source
  with NaN. Reading a column at a position it does not have gives NaN, as assigning a
  shorter Series to a frame column does.
\<close>

definition shift :: "int \<Rightarrow> fl list \<Rightarrow> fl list" where
  "shift p xs =
     map (\<lambda>i. let j = int i - p
               in if 0 \<le> j \<and> j < int (length xs) then xs ! nat j else NaN)
       [0..<length xs]"

definition col_at :: "fl list \<Rightarrow> nat \<Rightarrow> fl" where
  "col_at xs i = (if i < length xs then xs ! i else NaN)"

section \<open>Labels\<close>

text \<open>
  \<^verbatim>\<open>make_label(df, horizon)\<close> reads only the close column of the frame, so the model
  takes that column. \<^verbatim>\<open>fwd = close.shift(-horizon) / close - 1.0\<close>, and the label is
  \<^verbatim>\<open>(fwd > 0).astype(int)\<close>.
\<close>

definition fwd_return :: "fl list \<Rightarrow> int \<Rightarrow> fl list" where
  "fwd_return cl horizon =
     map (\<lambda>(s, c). fl_sub (fl_div s c) (Fin 1)) (zip (shift (- horizon) cl) cl)"

definition make_label :: "fl list \<Rightarrow> int \<Rightarrow> int list" where
  "make_label cl horizon =
     map (\<lambda>f. if fl_gt f (Fin 0) then 1 else 0) (fwd_return cl horizon)"

section \<open>Candles and features\<close>

text \<open>
  A candle is a row of the frame \<^verbatim>\<open>fetch_candles_df\<close> builds: a timestamp and five
  finite numbers. \<^verbatim>\<open>build_features\<close> adds thirteen float columns; a feature row is a
  candle extended with them.
\<close>

record candle =
  c_ts :: int
  c_open :: real
  c_high :: real
  c_low :: real
  c_close :: real
  c_volume :: real

record frow = candle +
  ret1 :: fl
  ret3 :: fl
  ret6 :: fl
  rsi :: fl
  ema20 :: fl
  ema50 :: fl
  macd :: fl
  macd_sig :: fl
  bb_low :: fl
  bb_high :: fl
  atr :: fl
  ema_spread :: fl
  price_bb_pos :: fl

text \<open>
  The indicators of the \<^verbatim>\<open>ta\<close> package are not code of this repository: each is a
  parameter that takes the columns and windows \<^verbatim>\<open>build_features\<close> passes and returns a
  column, or raises.
\<close>

record ta_lib =
  ta_rsi :: "real list \<Rightarrow> nat \<Rightarrow> py_error + fl list"
  ta_ema :: "real list \<Rightarrow> nat \<Rightarrow> py_error + fl list"
  ta_macd :: "real list \<Rightarrow> nat \<Rightarrow> nat \<Rightarrow> nat \<Rightarrow> py_error + fl list"
  ta_macd_signal :: "real list \<Rightarrow> nat \<Rightarrow> nat \<Rightarrow> nat \<Rightarrow> py_error + fl list"
  ta_bb_low :: "real list \<Rightarrow> nat \<Rightarrow> nat \<Rightarrow> py_error + fl list"
  ta_bb_high :: "real list \<Rightarrow> nat \<Rightarrow> nat \<Rightarrow> py_error + fl list"
  ta_atr :: "real list \<Rightarrow> real list \<Rightarrow> real list \<Rightarrow> nat \<Rightarrow> py_error + fl list"

definition pct_change :: "nat \<Rightarrow> real list \<Rightarrow> fl list" where
  \<comment> \<open>\<^verbatim>\<open>close.pct_change(n)\<close> on a column without missing values\<close>
  "pct_change n cl =
     map (\<lambda>(c, s). fl_sub (fl_div c s) (Fin 1))
       (zip (map Fin cl) (shift (int n) (map Fin cl)))"

definition row_finite :: "frow \<Rightarrow> bool" where
  "row_finite r =
     (is_finite (ret1 r) \<and> is_finite (ret3 r) \<and> is_finite (ret6 r) \<and> is_finite (rsi r)
      \<and> is_finite (ema20 r) \<and> is_finite (ema50 r) \<and> is_finite (macd r)
      \<and> is_finite (macd_sig r) \<and> is_finite (bb_low r) \<and> is_finite (bb_high r)
      \<and> is_finite (atr r) \<and> is_finite (ema_spread r) \<and> is_finite (price_bb_pos r))"

definition dropna :: "frow list \<Rightarrow> frow list" where
  \<comment> \<open>\<^verbatim>\<open>df.replace([np.inf, -np.inf], np.nan).dropna()\<close>\<close>
  "dropna rows = filter row_finite rows"

definition feature_row ::
  "candle \<Rightarrow> fl \<Rightarrow> fl \<Rightarrow> fl \<Rightarrow> fl \<Rightarrow> fl \<Rightarrow> fl \<Rightarrow> fl \<Rightarrow> fl \<Rightarrow> fl \<Rightarrow> fl \<Rightarrow> fl \<Rightarrow> frow" where
  "feature_row c r1 r3 r6 rs e20 e50 mc ms bl bh a =
     \<lparr> c_ts = c_ts c, c_open = c_open c, c_high = c_high c, c_low = c_low c,
       c_close = c_close c, c_volume = c_volume c,
       ret1 = r1, ret3 = r3, ret6 = r6, rsi = rs, ema20 = e20, ema50 = e50,
       macd = mc, macd_sig = ms, bb_low = bl, bb_high = bh, atr = a,
       ema_spread = fl_div (fl_sub e20 e50) (Fin (c_close c)),
       price_bb_pos = fl_div (fl_sub (Fin (c_close c)) bl) (fl_sub bh bl) \<rparr>"

definition build_features :: "ta_lib \<Rightarrow> candle list \<Rightarrow> py_error + frow list" where
  "build_features ta df =
     (let cl = map c_close df;
          r1 = pct_change 1 cl;
          r3 = pct_change 3 cl;
          r6 = pct_change 6 cl
      in bind_err (ta_rsi ta cl 14) (\<lambda>rs.
         bind_err (ta_ema ta cl 20) (\<lambda>e20.
         bind_err (ta_ema ta cl 50) (\<lambda>e50.
         bind_err (ta_macd ta cl 26 12 9) (\<lambda>mc.
         bind_err (ta_macd_signal ta cl 26 12 9) (\<lambda>ms.
         bind_err (ta_bb_low ta cl 20 2) (\<lambda>bl.
         bind_err (ta_bb_high ta cl 20 2) (\<lambda>bh.
         bind_err (ta_atr ta (map c_high df) (map c_low df) cl 14) (\<lambda>a.
           Inr (dropna
             (map (\<lambda>i. feature_row (df ! i) (col_at r1 i) (col_at r3 i) (col_at r6 i)
                          (col_at rs i) (col_at e20 i) (col_at e50 i) (col_at mc i)
                          (col_at ms i) (col_at bl i) (col_at bh i) (col_at a i))
                [0..<length df])))))))))))"

section \<open>Direction classifier\<close>

text \<open>
  \<^verbatim>\<open>LogisticRegression(max_iter=200).fit(X_train, y_train).predict_proba(x)[0][1]\<close> is a
  parameter: it takes the training rows, their labels and the row to score, and returns
  the probability of class 1, or raises (scikit-learn refuses labels of a single class).
\<close>

type_synonym classifier = "fl list list \<Rightarrow> int list \<Rightarrow> fl list \<Rightarrow> py_error + fl"

definition x_row :: "frow \<Rightarrow> fl list" where
  \<comment> \<open>the nine columns selected into \<^verbatim>\<open>X\<close>\<close>
  "x_row r = [ret1 r, ret3 r, ret6 r, rsi r, ema_spread r, macd r, macd_sig r,
              price_bb_pos r, atr r]"

definition aligned :: "frow list \<Rightarrow> int \<Rightarrow> fl list list \<times> int list" where
  \<comment> \<open>\<^verbatim>\<open>X\<close> and \<^verbatim>\<open>y\<close> after \<^verbatim>\<open>y = y.iloc[:len(X)]; X = X.iloc[:len(y)]\<close>\<close>
  "aligned df_feat horizon_bars =
     (let y0 = make_label (map (\<lambda>r. Fin (c_close r)) df_feat) horizon_bars;
          X0 = map x_row df_feat;
          y = take (length X0) y0;
          X = take (length y) X0
      in (X, y))"

definition training_set :: "frow list \<Rightarrow> int \<Rightarrow> (fl list \<times> int) list" where
  \<comment> \<open>the rows and labels given to \<^verbatim>\<open>clf.fit(X.iloc[:-1], y.iloc[:-1])\<close>\<close>
  "training_set df_feat horizon_bars =
     (case aligned df_feat horizon_bars of (X, y) \<Rightarrow> zip (butlast X) (butlast y))"

definition flag_of :: "fl \<Rightarrow> fl \<Rightarrow> int" where
  "flag_of proba_up min_proba =
     (if fl_ge proba_up min_proba then 1
      else if fl_ge (f_sub (Fin 1) proba_up) min_proba then 0
      else - 1)"

definition price_model_signal ::
  "ta_lib \<Rightarrow> classifier \<Rightarrow> candle list \<Rightarrow> int \<Rightarrow> fl \<Rightarrow> py_error + fl \<times> int" where
  "price_model_signal ta clf df horizon_bars min_proba =
     bind_err (build_features ta df) (\<lambda>df_feat.
       case aligned df_feat horizon_bars of (X, y) \<Rightarrow>
         if length X < 50 then Inr (Fin 0.5, 0)
         else bind_err (clf (butlast X) (butlast y) (last X)) (\<lambda>proba_up.
                Inr (proba_up, flag_of proba_up min_proba)))"

section \<open>JSON, strings and the outside world\<close>

text \<open>
  A decoded HTTP body is a JSON value; an object is an association list (the parser
  returns distinct keys), read at its first binding of a key. A string is the UTF-8
  encoding of the Python string. \<open>strip\<close> removes, at both ends, the characters of
  Python's \<^verbatim>\<open>str.isspace\<close>, which take one, two or three bytes. \<open>lower\<close> changes the
  ASCII letters; of the other characters Python lowers, none yields a letter of the
  ASCII words the code compares the result with.
\<close>

datatype json =
  JNull | JBool bool | JNum fl | JStr string | JList "json list"
  | JDict "(string \<times> json) list"

fun truthy :: "json \<Rightarrow> bool" where
  "truthy JNull = False"
| "truthy (JBool b) = b"
| "truthy (JNum x) = (x \<noteq> Fin 0)"
| "truthy (JStr s) = (s \<noteq> [])"
| "truthy (JList xs) = (xs \<noteq> [])"
| "truthy (JDict kv) = (kv \<noteq> [])"

definition py_or :: "json \<Rightarrow> json \<Rightarrow> json" where
  "py_or a b = (if truthy a then a else b)"

definition dict_get :: "(string \<times> json) list \<Rightarrow> string \<Rightarrow> json" where
  \<comment> \<open>\<^verbatim>\<open>d.get(k)\<close>: \<^verbatim>\<open>None\<close> for a missing key\<close>
  "dict_get d k = (case map_of d k of None \<Rightarrow> JNull | Some v \<Rightarrow> v)"

definition dict_get_default :: "(string \<times> json) list \<Rightarrow> string \<Rightarrow> json \<Rightarrow> json" where
  \<comment> \<open>\<^verbatim>\<open>d.get(k, default)\<close>\<close>
  "dict_get_default d k dflt = (case map_of d k of None \<Rightarrow> dflt | Some v \<Rightarrow> v)"

definition lower_char :: "char \<Rightarrow> char" where
  "lower_char c =
     (case map_of (zip ''ABCDEFGHIJKLMNOPQRSTUVWXYZ'' ''abcdefghijklmnopqrstuvwxyz'') c of
        None \<Rightarrow> c | Some l \<Rightarrow> l)"

definition lower :: "string \<Rightarrow> string" where
  "lower s = map lower_char s"

definition py_spaces :: "string list" where
  \<comment> \<open>the characters of \<^verbatim>\<open>str.isspace\<close>: U+0009 to U+000D, U+001C to U+0020, U+0085,
      U+00A0, U+1680, U+2000 to U+200A, U+2028, U+2029, U+202F, U+205F, U+3000\<close>
  "py_spaces =
     [[CHR 0x09], [CHR 0x0A], [CHR 0x0B], [CHR 0x0C], [CHR 0x0D],
      [CHR 0x1C], [CHR 0x1D], [CHR 0x1E], [CHR 0x1F], [CHR 0x20],
      [CHR 0xC2, CHR 0x85], [CHR 0xC2, CHR 0xA0], [CHR 0xE1, CHR 0x9A, CHR 0x80],
      [CHR 0xE2, CHR 0x80, CHR 0x80], [CHR 0xE2, CHR 0x80, CHR 0x81],
      [CHR 0xE2, CHR 0x80, CHR 0x82], [CHR 0xE2, CHR 0x80, CHR 0x83],
      [CHR 0xE2, CHR 0x80, CHR 0x84], [CHR 0xE2, CHR 0x80, CHR 0x85],
      [CHR 0xE2, CHR 0x80, CHR 0x86], [CHR 0xE2, CHR 0x80, CHR 0x87],
      [CHR 0xE2, CHR 0x80, CHR 0x88], [CHR 0xE2, CHR 0x80, CHR 0x89],
      [CHR 0xE2, CHR 0x80, CHR 0x8A], [CHR 0xE2, CHR 0x80, CHR 0xA8],
      [CHR 0xE2, CHR 0x80, CHR 0xA9], [CHR 0xE2, CHR 0x80, CHR 0xAF],
      [CHR 0xE2, CHR 0x81, CHR 0x9F], [CHR 0xE3, CHR 0x80, CHR 0x80]]"

definition leading_space :: "string list \<Rightarrow> string \<Rightarrow> nat" where
  \<comment> \<open>the number of bytes of the white space character the string starts with, or 0\<close>
  "leading_space spaces s =
     (case find (\<lambda>sp. take (length sp) s = sp) spaces of
        None \<Rightarrow> 0
      | Some sp \<Rightarrow> length sp)"

primrec drop_spaces :: "string list \<Rightarrow> nat \<Rightarrow> string \<Rightarrow> string" where
  \<comment> \<open>drops leading white space, one character a turn, in at most \<open>n\<close> turns\<close>
  "drop_spaces spaces 0 s = s"
| "drop_spaces spaces (Suc n) s =
     (if leading_space spaces s = 0 then s
      else drop_spaces spaces n (drop (leading_space spaces s) s))"

definition strip :: "string \<Rightarrow> string" where
  "strip s =
     (let l = drop_spaces py_spaces (length s) s
      in rev (drop_spaces (map rev py_spaces) (length l) (rev l)))"

fun contains :: "string \<Rightarrow> string \<Rightarrow> bool" where
  \<comment> \<open>\<^verbatim>\<open>sub in s\<close>\<close>
  "contains sub [] = (sub = [])"
| "contains sub (c # cs) = (take (length sub) (c # cs) = sub \<or> contains sub cs)"

definition replace_Z :: "string \<Rightarrow> string" where
  \<comment> \<open>\<^verbatim>\<open>pub.replace("Z", "+00:00")\<close>\<close>
  "replace_Z s = concat (map (\<lambda>c. if c = CHR ''Z'' then ''+00:00'' else [c]) s)"

definition py_take :: "int \<Rightarrow> 'a list \<Rightarrow> 'a list" where
  \<comment> \<open>the slice \<^verbatim>\<open>xs[:m]\<close>; a negative \<open>m\<close> counts from the end\<close>
  "py_take m xs = (if 0 \<le> m then take (nat m) xs else take (length xs - nat (- m)) xs)"

definition iter_items :: "json \<Rightarrow> json list option" where
  \<comment> \<open>the values a \<^verbatim>\<open>for\<close> loop sees; \<open>None\<close> when the value is not iterable\<close>
  "iter_items v =
     (case v of
        JList xs \<Rightarrow> Some xs
      | JDict kv \<Rightarrow> Some (map (\<lambda>(k, _). JStr k) kv)
      | JStr s \<Rightarrow> Some (map (\<lambda>c. JStr [c]) s)
      | _ \<Rightarrow> None)"

text \<open>
  An instant is a number of microseconds since the epoch. A parsed timestamp carries an
  offset (\<open>Aware\<close>) or not (\<open>Naive\<close>); Python refuses to order a naive one against an
  aware one.
\<close>

datatype datetime = Aware int | Naive int

text \<open>
  The world: the process environment, the clock, the two parsers of the Python runtime
  the code calls on strings, numpy's mean (the order in which it sums is numpy's own),
  and the three HTTP endpoints. An endpoint returns the decoded body, or fails
  (connection error, timeout, HTTP error status, a body that is not JSON).
  \<open>hf_post w k\<close> is the \<open>k\<close>-th request of one scoring batch.
\<close>

record world =
  getenv :: "string \<Rightarrow> string option"
  now_utc :: int
  fromisoformat :: "string \<Rightarrow> datetime option"
  float_of_str :: "string \<Rightarrow> fl option"
  np_mean :: "fl list \<Rightarrow> fl"
  cryptopanic_get :: "string \<Rightarrow> string \<Rightarrow> py_error + json"
  newsapi_get :: "string \<Rightarrow> int \<Rightarrow> int \<Rightarrow> py_error + json"
  hf_post :: "nat \<Rightarrow> string \<Rightarrow> string \<Rightarrow> py_error + json"

definition getenv_default :: "world \<Rightarrow> string \<Rightarrow> string \<Rightarrow> string" where
  \<comment> \<open>\<^verbatim>\<open>os.getenv(name, default)\<close>\<close>
  "getenv_default w name dflt = (case getenv w name of None \<Rightarrow> dflt | Some v \<Rightarrow> v)"

section \<open>Sentiment scorer\<close>

definition py_float :: "world \<Rightarrow> json \<Rightarrow> py_error + fl" where
  \<comment> \<open>\<^verbatim>\<open>float(v)\<close>\<close>
  "py_float w v =
     (case v of
        JNum x \<Rightarrow> Inr x
      | JBool b \<Rightarrow> Inr (Fin (if b then 1 else 0))
      | JStr s \<Rightarrow> (case float_of_str w s of None \<Rightarrow> Inl ValueError | Some x \<Rightarrow> Inr x)
      | _ \<Rightarrow> Inl TypeError)"

text \<open>
  The body of the \<^verbatim>\<open>try\<close> after \<^verbatim>\<open>resp.json()\<close>: the score appended for one decoded
  response, or the exception raised before anything is appended. In the first branch
  \<^verbatim>\<open>out[0]\<close> is a dict, and the generator walks its keys: on a first key, a string,
  \<^verbatim>\<open>x.get\<close> raises AttributeError; an empty dict gives \<^verbatim>\<open>0.0 - 0.0\<close>.
\<close>

fun hf_score :: "world \<Rightarrow> json \<Rightarrow> py_error + fl" where
  "hf_score w (JList (JDict probs # rest)) =
     (if probs = [] then Inr (fl_sub (Fin 0) (Fin 0)) else Inl AttributeError)"
| "hf_score w (JDict d) =
     (if ''label'' \<in> fst ` set d \<and> ''score'' \<in> fst ` set d then
        (case dict_get d ''label'' of
           JStr l \<Rightarrow>
             bind_err (py_float w (dict_get d ''score'')) (\<lambda>sc.
               if contains ''positive'' (lower l) then Inr sc
               else if contains ''negative'' (lower l) then Inr (fl_neg sc)
               else Inr (Fin 0))
         | _ \<Rightarrow> Inl AttributeError)
      else Inr (Fin 0))"
| "hf_score w _ = Inr (Fin 0)"

definition hf_score_one :: "world \<Rightarrow> string \<Rightarrow> nat \<Rightarrow> string \<Rightarrow> fl" where
  \<comment> \<open>one turn of the loop: the value appended to \<^verbatim>\<open>scores\<close>, by the body or by
      \<^verbatim>\<open>except Exception\<close>\<close>
  "hf_score_one w hf_token k t =
     (case bind_err (hf_post w k hf_token t) (hf_score w) of
        Inl e \<Rightarrow> Fin 0
      | Inr v \<Rightarrow> v)"

fun hf_loop :: "world \<Rightarrow> string \<Rightarrow> nat \<Rightarrow> string list \<Rightarrow> fl list \<Rightarrow> fl list" where
  "hf_loop w hf_token k [] scores = scores"
| "hf_loop w hf_token k (t # ts) scores =
     hf_loop w hf_token (Suc k) ts (scores @ [hf_score_one w hf_token k t])"

definition hf_sentiment_finbert :: "world \<Rightarrow> string list \<Rightarrow> string \<Rightarrow> fl list" where
  "hf_sentiment_finbert w texts hf_token =
     (if texts = [] \<or> hf_token = [] then [] else hf_loop w hf_token 0 texts [])"

section \<open>News aggregator\<close>

text \<open>
  Both fetchers compute a time from \<^verbatim>\<open>lookback_hours\<close> outside their \<^verbatim>\<open>try\<close> blocks
  (\<^verbatim>\<open>timedelta(hours=lookback_hours)\<close>). That raises only for a lookback beyond the range
  of \<^verbatim>\<open>datetime\<close>, and is not modelled: the cutoff is an integer, and the NewsAPI request
  takes the lookback as it is.
\<close>

definition cp_results :: "world \<Rightarrow> string \<Rightarrow> string \<Rightarrow> json list option" where
  \<comment> \<open>the \<^verbatim>\<open>try\<close> block of \<^verbatim>\<open>_fetch_news_cryptopanic\<close>: the items of \<^verbatim>\<open>results\<close>, or
      \<open>None\<close> when the block raises (the request, \<^verbatim>\<open>data.keys()\<close> on a value that is
      not a dict, \<^verbatim>\<open>len(results)\<close> on a value without a length)\<close>
  "cp_results w api_key currency =
     (case cryptopanic_get w api_key currency of
        Inl e \<Rightarrow> None
      | Inr (JDict d) \<Rightarrow> iter_items (dict_get_default d ''results'' (JList []))
      | Inr _ \<Rightarrow> None)"

definition item_title :: "json \<Rightarrow> py_error + string" where
  \<comment> \<open>\<^verbatim>\<open>title = item.get("title") or item.get("slug") or ""; title = title.strip()\<close>\<close>
  "item_title item =
     (case item of
        JDict d \<Rightarrow>
          (case py_or (dict_get d ''title'') (py_or (dict_get d ''slug'') (JStr [])) of
             JStr s \<Rightarrow> Inr (strip s)
           | _ \<Rightarrow> Inl AttributeError)
      | _ \<Rightarrow> Inl AttributeError)"

definition item_dt :: "world \<Rightarrow> json \<Rightarrow> datetime option" where
  \<comment> \<open>\<^verbatim>\<open>pub\<close> and the guarded \<^verbatim>\<open>datetime.fromisoformat\<close>; the item is a dict here\<close>
  "item_dt w item =
     (case item of
        JDict d \<Rightarrow>
          (case py_or (dict_get d ''published_at'')
                  (py_or (dict_get d ''created_at'') (JStr [])) of
             JStr s \<Rightarrow> fromisoformat w (replace_Z s)
           | _ \<Rightarrow> None)
      | _ \<Rightarrow> None)"

definition mark_old :: "int \<Rightarrow> datetime option \<Rightarrow> string \<Rightarrow> py_error + string" where
  \<comment> \<open>\<^verbatim>\<open>if dt is None or dt >= cutoff\<close>: the headline as it is appended\<close>
  "mark_old cutoff dt title =
     (case dt of
        None \<Rightarrow> Inr title
      | Some (Aware t) \<Rightarrow> Inr (if cutoff \<le> t then title else title @ '' (old)'')
      | Some (Naive t) \<Rightarrow> Inl TypeError)"

fun cp_loop ::
  "world \<Rightarrow> int \<Rightarrow> int \<Rightarrow> json list \<Rightarrow> string list \<Rightarrow> py_error + string list" where
  "cp_loop w cutoff max_headlines [] titles = Inr titles"
| "cp_loop w cutoff max_headlines (item # rest) titles =
     bind_err (item_title item) (\<lambda>title.
       if title = [] then cp_loop w cutoff max_headlines rest titles
       else bind_err (mark_old cutoff (item_dt w item) title) (\<lambda>headline.
              if max_headlines \<le> int (length (titles @ [headline]))
              then Inr (titles @ [headline])
              else cp_loop w cutoff max_headlines rest (titles @ [headline])))"

definition fetch_news_cryptopanic ::
  "world \<Rightarrow> string \<Rightarrow> int \<Rightarrow> int \<Rightarrow> string \<Rightarrow> py_error + string list" where
  "fetch_news_cryptopanic w api_key lookback_hours max_headlines currency =
     (if api_key = [] then Inr []
      else case cp_results w api_key currency of
             None \<Rightarrow> Inr []
           | Some items \<Rightarrow>
               cp_loop w (now_utc w - lookback_hours * 3600000000) max_headlines items [])"

fun na_titles :: "json list \<Rightarrow> py_error + string list" where
  \<comment> \<open>\<^verbatim>\<open>[(a.get("title") or "").strip() for a in articles if a.get("title")]\<close>\<close>
  "na_titles [] = Inr []"
| "na_titles (a # rest) =
     (case a of
        JDict d \<Rightarrow>
          if truthy (dict_get d ''title'') then
            (case py_or (dict_get d ''title'') (JStr []) of
               JStr s \<Rightarrow> bind_err (na_titles rest) (\<lambda>ts. Inr (strip s # ts))
             | _ \<Rightarrow> Inl AttributeError)
          else na_titles rest
      | _ \<Rightarrow> Inl AttributeError)"

definition fetch_news_newsapi :: "world \<Rightarrow> string \<Rightarrow> int \<Rightarrow> int \<Rightarrow> string list" where
  "fetch_news_newsapi w api_key lookback_hours max_headlines =
     (if api_key = [] then []
      else case newsapi_get w api_key lookback_hours max_headlines of
             Inl e \<Rightarrow> []
           | Inr (JDict d) \<Rightarrow>
               (case iter_items (dict_get_default d ''articles'' (JList [])) of
                  None \<Rightarrow> []
                | Some articles \<Rightarrow>
                    (case na_titles articles of
                       Inl e \<Rightarrow> []
                     | Inr titles \<Rightarrow> py_take max_headlines titles))
           | Inr _ \<Rightarrow> [])"

record cfg_news =
  lookback_hours :: "int option"
  max_headlines :: "int option"
  source :: "string option"

definition cfg_get :: "'a option \<Rightarrow> 'a \<Rightarrow> 'a" where
  \<comment> \<open>\<^verbatim>\<open>cfg.get(key, default)\<close> on a key that is absent (\<open>None\<close>) or set\<close>
  "cfg_get v dflt = (case v of None \<Rightarrow> dflt | Some x \<Rightarrow> x)"

definition news_titles :: "world \<Rightarrow> cfg_news \<Rightarrow> py_error + string list" where
  \<comment> \<open>the headlines \<^verbatim>\<open>news_sentiment\<close> gathers before it scores them\<close>
  "news_titles w c =
     (let lookback = cfg_get (lookback_hours c) 6;
          maxh = cfg_get (max_headlines c) 12;
          src = lower (cfg_get (source c) ''cryptopanic'');
          cp_key = getenv_default w ''CRYPTOPANIC_API_KEY'' [];
          na_key = getenv_default w ''NEWSAPI_KEY'' []
      in bind_err
           (if src = ''cryptopanic'' \<and> cp_key \<noteq> []
            then fetch_news_cryptopanic w cp_key lookback maxh ''ETH''
            else Inr [])
           (\<lambda>titles.
              Inr (if titles = [] \<and> na_key \<noteq> []
                   then fetch_news_newsapi w na_key lookback maxh
                   else titles)))"

definition news_sentiment :: "world \<Rightarrow> cfg_news \<Rightarrow> py_error + fl" where
  "news_sentiment w c =
     bind_err (news_titles w c) (\<lambda>titles.
       if titles = [] then Inr (Fin 0)
       else let scores =
                  hf_sentiment_finbert w titles (getenv_default w ''HUGGINGFACE_API_TOKEN'' [])
            in if scores = [] then Inr (Fin 0) else Inr (np_mean w scores))"

section \<open>Decision blender\<close>

record cfg =
  pred_horizon_bars :: "int option"
  min_price_model_proba :: "fl option"
  news :: "cfg_news option"
  blend_weight_price :: "fl option"
  blend_weight_news :: "fl option"
  min_news_sentiment :: "fl option"
  max_news_sentiment_for_short :: "fl option"

record diag =
  diag_proba_up :: fl
  diag_news_sent :: fl
  diag_blended :: fl

definition py_round :: "fl \<Rightarrow> nat \<Rightarrow> fl" where
  \<comment> \<open>\<^verbatim>\<open>round(x, ndigits)\<close>: the exact value of \<open>x\<close> rounded to \<open>ndigits\<close> decimals, a tie
      to the even digit, and the float nearest to that decimal\<close>
  "py_round x ndigits =
     (case x of
        Fin r \<Rightarrow> b64_round (of_int (round_half_even (r * 10 ^ ndigits)) / 10 ^ ndigits)
      | _ \<Rightarrow> x)"

definition no_news :: cfg_news where
  \<comment> \<open>the default \<^verbatim>\<open>{}\<close> of \<^verbatim>\<open>cfg.get("news", {})\<close>\<close>
  "no_news = \<lparr> lookback_hours = None, max_headlines = None, source = None \<rparr>"

definition price_comp :: "fl \<Rightarrow> fl" where
  "price_comp proba_up = f_mul (f_sub proba_up (Fin 0.5)) (Fin 2)"

definition blended :: "cfg \<Rightarrow> fl \<Rightarrow> fl \<Rightarrow> fl" where
  "blended c proba_up s_news =
     f_add (f_mul (cfg_get (blend_weight_price c) (lit 0.6)) (price_comp proba_up))
           (f_mul (cfg_get (blend_weight_news c) (lit 0.4)) s_news)"

definition side_of :: "cfg \<Rightarrow> fl \<Rightarrow> fl \<Rightarrow> string" where
  "side_of c proba_up s_news =
     (if fl_ge (blended c proba_up s_news) (lit 0.1)
         \<and> fl_ge proba_up (cfg_get (min_price_model_proba c) (lit 0.55))
         \<and> fl_ge s_news (cfg_get (min_news_sentiment c) (lit 0.10))
      then ''long''
      else if fl_le (blended c proba_up s_news) (fl_neg (lit 0.1))
         \<and> fl_ge (f_sub (Fin 1) proba_up) (cfg_get (min_price_model_proba c) (lit 0.55))
         \<and> fl_le s_news (cfg_get (max_news_sentiment_for_short c) (fl_neg (lit 0.10)))
      then ''short''
      else ''skip'')"

definition decide_direction ::
  "world \<Rightarrow> ta_lib \<Rightarrow> classifier \<Rightarrow> candle list \<Rightarrow> cfg \<Rightarrow> py_error + string \<times> diag" where
  "decide_direction w ta clf df c =
     bind_err
       (price_model_signal ta clf df (cfg_get (pred_horizon_bars c) 3)
          (cfg_get (min_price_model_proba c) (lit 0.55)))
       (\<lambda>(proba_up, flag).
          bind_err (news_sentiment w (cfg_get (news c) no_news)) (\<lambda>s_news.
            Inr (side_of c proba_up s_news,
                 \<lparr> diag_proba_up = py_round proba_up 3,
                   diag_news_sent = py_round s_news 3,
                   diag_blended = py_round (blended c proba_up s_news) 3 \<rparr>)))"

section \<open>Derived notions and example inputs\<close>

text \<open>
  The headline one CryptoPanic item contributes, when the loop reaches it and it does
  not raise: nothing for an item without a title, else its title as \<open>mark_old\<close>
  leaves it.
\<close>

definition headline_of :: "world \<Rightarrow> int \<Rightarrow> json \<Rightarrow> string option" where
  "headline_of w cutoff item =
     (case item_title item of
        Inl e \<Rightarrow> None
      | Inr title \<Rightarrow>
          if title = [] then None
          else (case mark_old cutoff (item_dt w item) title of
                  Inl e \<Rightarrow> None
                | Inr headline \<Rightarrow> Some headline))"

text \<open>
  Example inputs. An indicator library whose columns are finite everywhere, and one
  with the warm-up of the \<^verbatim>\<open>ta\<close> package: no value before a window has filled, and an
  average true range that writes position \<open>window - 1\<close> of its column, which raises
  IndexError on a shorter frame. A steadily rising market, classifiers that answer a
  fixed probability or raise, a mean that sums from left to right, and a world whose
  clock stands at 2024-01-02 13:00 UTC, with one CryptoPanic body, one NewsAPI body and
  a chosen sequence of sentiment replies.
\<close>

definition ta_const :: ta_lib where
  "ta_const =
     \<lparr> ta_rsi = (\<lambda>cl n. Inr (map (\<lambda>c. Fin 50) cl)),
       ta_ema = (\<lambda>cl n. Inr (map Fin cl)),
       ta_macd = (\<lambda>cl slow fast sign. Inr (map (\<lambda>c. Fin 0) cl)),
       ta_macd_signal = (\<lambda>cl slow fast sign. Inr (map (\<lambda>c. Fin 0) cl)),
       ta_bb_low = (\<lambda>cl n dev. Inr (map (\<lambda>c. Fin (c - 10)) cl)),
       ta_bb_high = (\<lambda>cl n dev. Inr (map (\<lambda>c. Fin (c + 10)) cl)),
       ta_atr = (\<lambda>hi lo cl n. Inr (map (\<lambda>c. Fin 1) cl)) \<rparr>"



definition rising :: "nat \<Rightarrow> candle list" where
  "rising n =
     map (\<lambda>i. \<lparr> c_ts = int i, c_open = 100 + real i, c_high = 101 + real i,
                c_low = 99 + real i, c_close = 100 + real i, c_volume = 1 \<rparr>)
       [0..<n]"

definition rising_features :: "frow list" where
  "rising_features =
     (case build_features ta_const (rising 56) of Inl e \<Rightarrow> [] | Inr rows \<Rightarrow> rows)"

definition clf_const :: "fl \<Rightarrow> classifier" where
  "clf_const p = (\<lambda>X_train y_train x. Inr p)"

definition clf_raises :: classifier where
  "clf_raises = (\<lambda>X_train y_train x. Inl LibraryError)"

definition example_items :: "json list" where
  "example_items =
     [JDict [(''title'', JStr ''ETH breaks out''),
             (''published_at'', JStr ''2024-01-02T12:00:00Z'')],
      JDict [(''title'', JStr ''  ''),
             (''published_at'', JStr ''2024-01-02T12:00:00Z'')],
      JDict [(''title'', JStr ''Merge anniversary ''),
             (''published_at'', JStr ''2024-01-01T00:00:00Z'')],
      JDict [(''slug'', JStr ''fees-fall''),
             (''created_at'', JStr ''2024-01-01T00:00:00Z'')],
      JDict [(''title'', JStr ''Staking grows'')]]"


definition example_posts :: json where
  "example_posts = JDict [(''count'', JNum (Fin 5)), (''results'', JList example_items)]"

definition old_article :: "(string \<times> json) list" where
  "old_article = [(''title'', JStr ''Ethereum fund inflows rise''),
                  (''publishedAt'', JStr ''2024-01-01T00:00:00Z'')]"

definition example_articles :: json where
  "example_articles = JDict [(''status'', JStr ''ok''), (''articles'', JList [
      JDict old_article,
      JDict [(''title'', JNull)],
      JDict [(''title'', JStr ''Crypto market steady'')]])]"

definition example_clock :: "string \<Rightarrow> datetime option" where
  "example_clock = map_of
     [(''2024-01-02T12:00:00+00:00'', Aware 1704196800000000),
      (''2024-01-01T00:00:00+00:00'', Aware 1704067200000000),
      (''2024-01-01T00:00:00'', Naive 1704067200000000)]"

definition finbert_reply :: "string \<Rightarrow> real \<Rightarrow> py_error + json" where
  "finbert_reply l s = Inr (JDict [(''label'', JStr l), (''score'', JNum (Fin s))])"

definition seq_mean :: "fl list \<Rightarrow> fl" where
  "seq_mean xs = f_div (foldl f_add (Fin 0) xs) (Fin (real (length xs)))"

definition example_world ::
  "(string \<times> string) list \<Rightarrow> (nat \<Rightarrow> py_error + json) \<Rightarrow> world" where
  "example_world env replies =
     \<lparr> getenv = map_of env,
       now_utc = 1704200400000000,
       fromisoformat = example_clock,
       float_of_str = (\<lambda>s. None),
       np_mean = seq_mean,
       cryptopanic_get = (\<lambda>key currency. Inr example_posts),
       newsapi_get = (\<lambda>key lookback page_size. Inr example_articles),
       hf_post = (\<lambda>k hf_token t. replies k) \<rparr>"




definition mixed_replies :: "nat \<Rightarrow> py_error + json" where
  "mixed_replies k =
     (if k = 0 then finbert_reply ''positive'' 0.5
      else if k = 1 then Inl RequestError
      else if k = 2 then finbert_reply ''Negative'' 0.25
      else Inr (JList [JList [JDict [(''label'', JStr ''positive''),
                                     (''score'', JNum (Fin 0.875))]]]))"

definition all_keys :: "(string \<times> string) list" where
  "all_keys = [(''CRYPTOPANIC_API_KEY'', ''cp-key''), (''NEWSAPI_KEY'', ''na-key''),
               (''HUGGINGFACE_API_TOKEN'', ''hf-token'')]"

definition news_cfg :: "int option \<Rightarrow> string option \<Rightarrow> cfg_news" where
  "news_cfg m s = \<lparr> lookback_hours = None, max_headlines = m, source = s \<rparr>"

definition default_cfg :: cfg where
  \<comment> \<open>a configuration that sets none of the keys \<^verbatim>\<open>decide_direction\<close> reads\<close>
  "default_cfg =
     \<lparr> pred_horizon_bars = None, min_price_model_proba = None, news = None,
       blend_weight_price = None, blend_weight_news = None,
       min_news_sentiment = None, max_news_sentiment_for_short = None \<rparr>"

section \<open>Properties of the label generator\<close>

lemma length_shift: "length (shift p xs) = length xs"
  by (simp add: shift_def)

lemma length_fwd_return: "length (fwd_return cl h) = length cl"
  by (simp add: fwd_return_def length_shift)

lemma shift_tail_NaN:
  assumes "i < length xs" and "int (length xs) \<le> int i + h"
  shows "shift (- h) xs ! i = NaN"
  using assms by (simp add: shift_def Let_def)

lemma fwd_return_tail_NaN:
  assumes "i < length cl" and "int (length cl) \<le> int i + h"
  shows "fwd_return cl h ! i = NaN"
  using assms by (simp add: fwd_return_def length_shift shift_tail_NaN fl_sub_def)

lemma make_label_nth:
  assumes "i < length cl"
  shows "make_label cl h ! i = (if fl_gt (fwd_return cl h ! i) (Fin 0) then 1 else 0)"
  using assms by (simp add: make_label_def length_fwd_return)

section \<open>Rounding to binary64\<close>

lemma round_half_even_bounds:
  "\<lfloor>x\<rfloor> \<le> round_half_even x \<and> round_half_even x \<le> \<lfloor>x\<rfloor> + 1"
  by (simp add: round_half_even_def Let_def)

lemma round_half_even_le:
  assumes "x < of_int n"
  shows "round_half_even x \<le> n"
proof -
  from assms have "\<lfloor>x\<rfloor> < n" by (simp add: floor_less_iff)
  with round_half_even_bounds [of x] show ?thesis by linarith
qed

lemma bitlen_unique:
  assumes "2 ^ n \<le> m" and "m < 2 ^ Suc n"
  shows "bitlen m = int (Suc n)"
proof -
  have pos: "0 < m" using assms(1) by (smt (verit) zero_less_power)
  from bitlen_bounds [OF pos]
  have lo: "2 ^ nat (bitlen m - 1) \<le> m" and hi: "m < 2 ^ nat (bitlen m)" by simp_all
  from lo assms(2) have "(2::int) ^ nat (bitlen m - 1) < 2 ^ Suc n" by linarith
  then have a: "nat (bitlen m - 1) < Suc n"
    by (rule power_less_imp_less_exp [rotated]) simp
  from hi assms(1) have "(2::int) ^ n < 2 ^ nat (bitlen m)" by linarith
  then have b: "n < nat (bitlen m)"
    by (rule power_less_imp_less_exp [rotated]) simp
  from a b show ?thesis by linarith
qed

text \<open>
  In the normal range below \<open>2 ^ 53\<close>: a value whose magnitude, scaled by \<open>2 ^ p\<close>, lies in
  \<open>[2 ^ 52, 2 ^ 53)\<close> is rounded to an integer number of units \<open>2 ^ - p\<close>.
\<close>

lemma b64_round_normal:
  assumes lo: "2 ^ 52 \<le> \<bar>x\<bar> * 2 ^ p" and hi: "\<bar>x\<bar> * 2 ^ p < 2 ^ 53" and p: "p \<le> 1074"
  shows "b64_round x = Fin (sgn x * of_int (round_half_even (\<bar>x\<bar> * 2 ^ p)) / 2 ^ p)"
proof -
  define q where "q = 1074 - p"
  define m where "m = \<bar>x\<bar> * 2 ^ p"
  define a where "a = \<bar>x\<bar> * 2 ^ 1074"
  from p have pq: "p + q = 1074" by (simp add: q_def)
  have a_eq: "a = m * 2 ^ q"
    unfolding a_def m_def using pq by (simp add: power_add [symmetric])
  have "of_int (2 ^ (52 + q)) \<le> a"
    using lo by (simp add: a_eq m_def power_add)
  then have fl_lo: "2 ^ (52 + q) \<le> \<lfloor>a\<rfloor>"
    by (simp add: le_floor_iff)
  have "a < of_int (2 ^ Suc (52 + q))"
    using hi by (simp add: a_eq m_def power_add)
  then have fl_hi: "\<lfloor>a\<rfloor> < 2 ^ Suc (52 + q)"
    by (simp add: floor_less_iff)
  from bitlen_unique [OF fl_lo fl_hi] have k: "nat (bitlen \<lfloor>a\<rfloor> - 53) = q"
    by simp
  have scaled: "a / 2 ^ q = m"
    by (simp add: a_eq)
  from hi have "round_half_even m \<le> 2 ^ 53"
    using round_half_even_le [of m "2 ^ 53"] by (simp add: m_def)
  then have "real_of_int (round_half_even m) \<le> 2 ^ 53"
    by (metis of_int_le_iff of_int_numeral of_int_power)
  then have "real_of_int (round_half_even m) * 2 ^ q \<le> 2 ^ 53 * 2 ^ q"
    by (simp add: mult_right_mono)
  also have "\<dots> = 2 ^ (53 + q)" by (simp add: power_add)
  also have "\<dots> < (2::real) ^ 2098"
    by (rule power_strict_increasing) (use pq in simp_all)
  finally have no_overflow: "\<not> 2 ^ 2098 \<le> real_of_int (round_half_even m) * 2 ^ q"
    by simp
  have "real_of_int (round_half_even m) * 2 ^ q / 2 ^ 1074
          = real_of_int (round_half_even m) / 2 ^ p"
    using pq by (simp add: power_add [symmetric] field_simps)
  then have "sgn x * (real_of_int (round_half_even m) * 2 ^ q) / 2 ^ 1074
          = sgn x * real_of_int (round_half_even m) / 2 ^ p"
    by (simp add: algebra_simps)
  with no_overflow show ?thesis
    unfolding b64_round_def Let_def a_def [symmetric] k scaled
    by (simp add: m_def)
qed

lemma b64_round_zero [simp]: "b64_round 0 = Fin 0"
  by (simp add: b64_round_def round_half_even_def Let_def)

lemma f_add_Fin [simp]: "f_add (Fin x) (Fin y) = b64_round (x + y)"
  by (simp add: f_add_def)

lemma f_sub_Fin [simp]: "f_sub (Fin x) (Fin y) = b64_round (x - y)"
  by (simp add: f_sub_def)

lemma f_mul_Fin [simp]: "f_mul (Fin x) (Fin y) = b64_round (x * y)"
  by (simp add: f_mul_def)

lemma f_div_Fin [simp]: "y \<noteq> 0 \<Longrightarrow> f_div (Fin x) (Fin y) = b64_round (x / y)"
  by (simp add: f_div_def)

section \<open>Helper lemmas\<close>

lemma bind_err_Inr [simp]: "bind_err (Inr x) f = f x"
  by (simp add: bind_err_def)

lemma bind_err_Inl [simp]: "bind_err (Inl e) f = Inl e"
  by (simp add: bind_err_def)

lemma length_make_label: "length (make_label cl h) = length cl"
  by (simp add: make_label_def length_fwd_return)

lemma aligned_eq:
  "aligned df_feat h =
     (map x_row df_feat, make_label (map (\<lambda>r. Fin (c_close r)) df_feat) h)"
  by (simp add: aligned_def Let_def length_make_label)


lemma price_model_signal_fit:
  assumes "build_features ta df = Inr df_feat" and "50 \<le> length df_feat"
  shows "price_model_signal ta clf df h mp =
           bind_err (clf (butlast (map x_row df_feat))
                         (butlast (make_label (map (\<lambda>r. Fin (c_close r)) df_feat) h))
                         (x_row (last df_feat)))
             (\<lambda>p. Inr (p, flag_of p mp))"
proof -
  from assms(2) have "df_feat \<noteq> []" by auto
  then have "last (map x_row df_feat) = x_row (last df_feat)"
    by (simp add: last_map)
  with assms show ?thesis
    by (simp add: price_model_signal_def aligned_eq)
qed

lemma training_set_eq:
  "training_set df_feat h =
     zip (butlast (map x_row df_feat))
         (butlast (make_label (map (\<lambda>r. Fin (c_close r)) df_feat) h))"
  by (simp add: training_set_def aligned_eq)

lemma build_features_length:
  assumes "build_features ta df = Inr df_feat"
  shows "length df_feat \<le> length df"
proof -
  from assms obtain rows where "df_feat = dropna rows" and "length rows = length df"
    by (auto simp add: build_features_def Let_def bind_err_def split: sum.splits)
  then show ?thesis
    by (simp add: dropna_def le_trans [OF length_filter_le])
qed

lemma build_features_ta_const: "\<exists>df_feat. build_features ta_const df = Inr df_feat"
  by (simp add: build_features_def ta_const_def Let_def)

lemma decide_direction_eq:
  assumes "price_model_signal ta clf df (cfg_get (pred_horizon_bars c) 3)
             (cfg_get (min_price_model_proba c) (lit 0.55)) = Inr (proba_up, flag)"
      and "news_sentiment w (cfg_get (news c) no_news) = Inr s_news"
  shows "decide_direction w ta clf df c =
           Inr (side_of c proba_up s_news,
                \<lparr> diag_proba_up = py_round proba_up 3,
                  diag_news_sent = py_round s_news 3,
                  diag_blended = py_round (blended c proba_up s_news) 3 \<rparr>)"
  using assms by (simp add: decide_direction_def)

text \<open>The rising example, evaluated once: 50 feature rows, labelled 1 but for the tail.\<close>

lemma rising_eval:
  "(case build_features ta_const (rising 56) of
      Inl e \<Rightarrow> False
    | Inr rows \<Rightarrow>
        length rows = 50
        \<and> make_label (map (\<lambda>r. Fin (c_close r)) rows) 3 = replicate 47 1 @ [0, 0, 0])"
  by code_simp

lemma rising_features:
  "build_features ta_const (rising 56) = Inr rising_features"
  "length rising_features = 50"
  "make_label (map (\<lambda>r. Fin (c_close r)) rising_features) 3 = replicate 47 1 @ [0, 0, 0]"
  using rising_eval by (auto simp add: rising_features_def split: sum.splits)

lemma rising_signal:
  "price_model_signal ta_const (clf_const p) (rising 56) h mp = Inr (p, flag_of p mp)"
  using price_model_signal_fit [OF rising_features(1), of "clf_const p" h mp]
  by (simp add: rising_features(2) clf_const_def)

section \<open>Values of the examples\<close>

text \<open>The floats the literals of the source denote, and those of the examples.\<close>

lemma lit_values:
  "lit 0.1 = Fin (3602879701896397 / 36028797018963968)"
  "lit 0.4 = Fin (3602879701896397 / 9007199254740992)"
  "lit 0.55 = Fin (2476979795053773 / 4503599627370496)"
  "lit 0.6 = Fin (5404319552844595 / 9007199254740992)"
  "lit 0.7 = Fin (3152519739159347 / 4503599627370496)"
  "lit 0.44 = Fin (7926335344172073 / 18014398509481984)"
  "lit 0.24 = Fin (1080863910568919 / 4503599627370496)"
  "lit 0.45 = Fin (8106479329266893 / 18014398509481984)"
  "lit 0.32 = Fin (5764607523034235 / 18014398509481984)"
  "lit 0.68 = Fin (6124895493223875 / 9007199254740992)"
  using b64_round_normal [of "0.1" 56] b64_round_normal [of "0.4" 54]
    b64_round_normal [of "0.55" 53] b64_round_normal [of "0.6" 53]
    b64_round_normal [of "0.7" 53] b64_round_normal [of "0.44" 54]
    b64_round_normal [of "0.24" 55] b64_round_normal [of "0.45" 54]
    b64_round_normal [of "0.32" 54] b64_round_normal [of "0.68" 53]
  by (simp_all add: lit_def round_half_even_def Let_def)

text \<open>
  The scenario \<open>proba_up = 0.70\<close>, \<open>s_news = 0.50\<close> with the default weights, step by step:
  \<open>0.7 - 0.5 = 0.19999999999999996\<close>, twice that is \<open>0.3999999999999999\<close>, times \<open>0.6\<close> is
  \<open>0.23999999999999994\<close>, and with \<open>0.4 * 0.5 = 0.2\<close> the sum is \<open>0.43999999999999995\<close>.
\<close>

lemma scenario_price_comp:
  "price_comp (lit 0.7) = Fin (900719925474099 / 2251799813685248)"
proof -
  have "b64_round (3152519739159347 / 4503599627370496 - 1 / 2)
          = Fin (900719925474099 / 4503599627370496)"
    using b64_round_normal [of "3152519739159347 / 4503599627370496 - 1 / 2" 55]
    by (simp add: round_half_even_def Let_def)
  moreover have "b64_round (900719925474099 / 4503599627370496 * 2)
          = Fin (900719925474099 / 2251799813685248)"
    using b64_round_normal [of "900719925474099 / 4503599627370496 * 2" 54]
    by (simp add: round_half_even_def Let_def)
  ultimately show ?thesis
    using lit_values(5) by (simp add: price_comp_def)
qed

lemma scenario_price_part:
  "f_mul (lit 0.6) (Fin (900719925474099 / 2251799813685248))
     = Fin (4323455642275675 / 18014398509481984)"
  using lit_values(4)
    b64_round_normal [of "5404319552844595 / 9007199254740992
                          * (900719925474099 / 2251799813685248)" 55]
  by (simp add: round_half_even_def Let_def)

lemma scenario_news_part:
  "f_mul (lit 0.4) (Fin 0.5) = Fin (3602879701896397 / 18014398509481984)"
  "f_mul (lit 0.4) (Fin 0) = Fin 0"
  using lit_values(2)
    b64_round_normal [of "3602879701896397 / 9007199254740992 * (1 / 2)" 55]
  by (simp_all add: round_half_even_def Let_def)

lemma scenario_blended:
  assumes "blend_weight_price c = None" and "blend_weight_news c = None"
  shows "blended c (lit 0.7) (Fin 0.5) = Fin (990791918021509 / 2251799813685248)"
    and "blended c (lit 0.7) (Fin 0) = Fin (4323455642275675 / 18014398509481984)"
proof -
  have sum: "b64_round (4323455642275675 / 18014398509481984
                        + 3602879701896397 / 18014398509481984)
          = Fin (990791918021509 / 2251799813685248)"
    using b64_round_normal [of "4323455642275675 / 18014398509481984
                                + 3602879701896397 / 18014398509481984" 54]
    by (simp add: round_half_even_def Let_def)
  have same: "b64_round (4323455642275675 / 18014398509481984)
          = Fin (4323455642275675 / 18014398509481984)"
    using b64_round_normal [of "4323455642275675 / 18014398509481984" 55]
    by (simp add: round_half_even_def Let_def)
  show "blended c (lit 0.7) (Fin 0.5) = Fin (990791918021509 / 2251799813685248)"
    using sum scenario_price_comp scenario_price_part scenario_news_part assms
    by (simp add: blended_def cfg_get_def)
  show "blended c (lit 0.7) (Fin 0) = Fin (4323455642275675 / 18014398509481984)"
    using same scenario_price_comp scenario_price_part scenario_news_part assms
    by (simp add: blended_def cfg_get_def)
qed

lemma scenario_rounded:
  "py_round (lit 0.7) 3 = lit 0.7"
  "py_round (Fin 0.5) 3 = Fin 0.5"
  "py_round (Fin 0) 3 = Fin 0"
  "py_round (Fin (990791918021509 / 2251799813685248)) 3 = lit 0.44"
  "py_round (Fin (4323455642275675 / 18014398509481984)) 3 = lit 0.24"
  using lit_values b64_round_normal [of "0.7" 53] b64_round_normal [of "0.5" 53]
    b64_round_normal [of "0.44" 54] b64_round_normal [of "0.24" 55]
  by (simp_all add: py_round_def round_half_even_def Let_def)

lemma scenario_flags:
  "f_sub (Fin 1) (lit 0.7) = Fin (1351079888211149 / 4503599627370496)"
  "f_sub (Fin 1) (lit 0.45) = lit 0.55"
  "f_sub (Fin 1) (lit 0.32) = Fin (3062447746611937 / 4503599627370496)"
  using lit_values
    b64_round_normal [of "1 - 3152519739159347 / 4503599627370496" 54]
    b64_round_normal [of "1 - 8106479329266893 / 18014398509481984" 53]
    b64_round_normal [of "1 - 5764607523034235 / 18014398509481984" 53]
  by (simp_all add: round_half_even_def Let_def)

text \<open>
  Rounding decides at the threshold. At \<open>proba_up = 0.57\<close> and \<open>s_news = 0.04\<close> with the
  default weights, \<open>0.57 - 0.5 = 0.06999999999999995\<close>, the price component is
  \<open>0.1399999999999999\<close>, and \<open>blended = 0.08399999999999994 + 0.016 = 0.09999999999999994\<close>
  is below the float \<open>0.1\<close>: the side is \<open>skip\<close> whatever the thresholds are, where the
  arithmetic of the reals gives \<open>0.1\<close>.
\<close>

lemma near_literals:
  "lit 0.57 = Fin (5134103575202365 / 9007199254740992)"
  "lit 0.04 = Fin (5764607523034235 / 144115188075855872)"
  using b64_round_normal [of "0.57" 53] b64_round_normal [of "0.04" 57]
  by (simp_all add: lit_def round_half_even_def Let_def)

lemma near_price_comp:
  "price_comp (lit 0.57) = Fin (630503947831869 / 4503599627370496)"
proof -
  have "b64_round (5134103575202365 / 9007199254740992 - 1 / 2)
          = Fin (630503947831869 / 9007199254740992)"
    using b64_round_normal [of "5134103575202365 / 9007199254740992 - 1 / 2" 56]
    by (simp add: round_half_even_def Let_def)
  moreover have "b64_round (630503947831869 / 9007199254740992 * 2)
          = Fin (630503947831869 / 4503599627370496)"
    using b64_round_normal [of "630503947831869 / 9007199254740992 * 2" 55]
    by (simp add: round_half_even_def Let_def)
  ultimately show ?thesis
    using near_literals(1) by (simp add: price_comp_def)
qed

lemma near_parts:
  "f_mul (lit 0.6) (Fin (630503947831869 / 4503599627370496))
     = Fin (3026418949592971 / 36028797018963968)"
  "f_mul (lit 0.4) (lit 0.04) = Fin (1152921504606847 / 72057594037927936)"
  using lit_values(2,4) near_literals(2)
    b64_round_normal [of "5404319552844595 / 9007199254740992
                          * (630503947831869 / 4503599627370496)" 56]
    b64_round_normal [of "3602879701896397 / 9007199254740992
                          * (5764607523034235 / 144115188075855872)" 58]
  by (simp_all add: round_half_even_def Let_def)

lemma blended_near_threshold:
  assumes "blend_weight_price c = None" and "blend_weight_news c = None"
  shows "blended c (lit 0.57) (lit 0.04) = Fin (7205759403792789 / 72057594037927936)"
    and "side_of c (lit 0.57) (lit 0.04) = ''skip''"
proof -
  have sum: "b64_round (3026418949592971 / 36028797018963968
                        + 1152921504606847 / 72057594037927936)
          = Fin (7205759403792789 / 72057594037927936)"
    using b64_round_normal [of "3026418949592971 / 36028797018963968
                                + 1152921504606847 / 72057594037927936" 56]
    by (simp add: round_half_even_def Let_def)
  show b: "blended c (lit 0.57) (lit 0.04) = Fin (7205759403792789 / 72057594037927936)"
    using sum near_price_comp near_parts assms
    by (simp add: blended_def cfg_get_def)
  show "side_of c (lit 0.57) (lit 0.04) = ''skip''"
    using b lit_values(1) by (simp add: side_of_def fl_le_def)
qed

text \<open>Means of the example scores, summed from the left.\<close>

lemma seq_mean_examples:
  "seq_mean [Fin 0.5, Fin 0.5, Fin 0.5, Fin 0.5] = Fin 0.5"
  "seq_mean [Fin 0, Fin 0, Fin 0, Fin 0] = Fin 0"
  "seq_mean [Fin 0.5, Fin 0, Fin (- 0.25)] = Fin (6004799503160661 / 72057594037927936)"
  using b64_round_normal [of "1 / 2" 53] b64_round_normal [of 1 52]
    b64_round_normal [of "3 / 2" 52] b64_round_normal [of 2 51]
    b64_round_normal [of "1 / 4" 54] b64_round_normal [of "1 / 12" 56]
  by (simp_all add: seq_mean_def round_half_even_def Let_def)

lemmas strip_eval = strip_def leading_space_def py_spaces_def Let_def

section \<open>The claims\<close>

text \<open>
  C9. For every close series and every horizon \<open>h \<ge> 1\<close>, \<open>make_label\<close> returns a series
  of the input's length whose entries are 0 or 1, and each of the last \<open>h\<close> entries is 0:
  the forward return of those rows is NaN, and NaN is not greater than zero.
\<close>

theorem make_label_total_tail_zero:
  assumes "1 \<le> h"
  shows "length (make_label cl h) = length cl
       \<and> (\<forall>i < length cl. make_label cl h ! i = 0 \<or> make_label cl h ! i = 1)
       \<and> (\<forall>i < length cl. int (length cl) \<le> int i + h \<longrightarrow>
            fwd_return cl h ! i = NaN \<and> make_label cl h ! i = 0)"
proof (intro conjI allI impI)
  show "length (make_label cl h) = length cl"
    by (simp add: make_label_def length_fwd_return)
next
  fix i assume "i < length cl"
  then show "make_label cl h ! i = 0 \<or> make_label cl h ! i = 1"
    by (simp add: make_label_nth)
next
  fix i assume i: "i < length cl" and tail: "int (length cl) \<le> int i + h"
  then show "fwd_return cl h ! i = NaN"
    by (rule fwd_return_tail_NaN)
  with i show "make_label cl h ! i = 0"
    by (simp add: make_label_nth)
qed

theorem make_label_total_tail_zero_witness:
  "make_label [Fin 100, Fin 101, Fin 99, Fin 102, Fin 98] 3 = [1, 0, 0, 0, 0]
   \<and> length (make_label [Fin 100, Fin 101, Fin 99, Fin 102, Fin 98] 3) = 5
   \<and> fwd_return [Fin 100, Fin 101, Fin 99, Fin 102, Fin 98] 3 ! 2 = NaN"
  using make_label_total_tail_zero [of 3 "[Fin 100, Fin 101, Fin 99, Fin 102, Fin 98]"]
  by (simp add: make_label_def fwd_return_def shift_def fl_sub_def upt_rec)

text \<open>
  C1, as the code behaves. With at least 50 feature rows the classifier is fitted on
  every feature row but the last one, which is the row scored, so the scored row is
  never a fitted row. For a horizon of 2 or more the row before the last is one of the
  last \<open>h\<close> rows: its forward return is NaN, and it is among the fitted rows, with
  label 0.
\<close>

theorem training_set_keeps_tail_rows:
  assumes feat: "build_features ta df = Inr df_feat"
      and rows: "50 \<le> length df_feat"
      and hor: "2 \<le> h"
  shows "price_model_signal ta clf df h min_proba =
           bind_err (clf (map fst (training_set df_feat h)) (map snd (training_set df_feat h))
                         (x_row (last df_feat)))
             (\<lambda>p. Inr (p, flag_of p min_proba))
       \<and> map fst (training_set df_feat h) = map x_row (butlast df_feat)
       \<and> length (training_set df_feat h) = length df_feat - 1
       \<and> fwd_return (map (\<lambda>r. Fin (c_close r)) df_feat) h ! (length df_feat - 2) = NaN
       \<and> training_set df_feat h ! (length df_feat - 2)
           = (x_row (df_feat ! (length df_feat - 2)), 0)"
proof -
  let ?cl = "map (\<lambda>r. Fin (c_close r)) df_feat"
  let ?i = "length df_feat - 2"
  have len: "length (butlast (map x_row df_feat)) = length (butlast (make_label ?cl h))"
    by (simp add: length_make_label)
  have fitted: "map fst (training_set df_feat h) = butlast (map x_row df_feat)"
               "map snd (training_set df_feat h) = butlast (make_label ?cl h)"
    using len by (simp_all add: training_set_eq)
  have size: "length (training_set df_feat h) = length df_feat - 1"
    by (simp add: training_set_eq length_make_label)
  from rows hor have i: "?i < length ?cl" and tail: "int (length ?cl) \<le> int ?i + h"
    by simp_all
  have nan: "fwd_return ?cl h ! ?i = NaN"
    using i tail by (rule fwd_return_tail_NaN)
  with i have zero: "make_label ?cl h ! ?i = 0"
    by (simp add: make_label_nth)
  from rows have "?i < length df_feat - 1" by simp
  with zero have member: "training_set df_feat h ! ?i = (x_row (df_feat ! ?i), 0)"
    by (simp add: training_set_eq length_make_label nth_butlast)
  have "map fst (training_set df_feat h) = map x_row (butlast df_feat)"
    using fitted(1) by (simp add: map_butlast)
  then show ?thesis
    using price_model_signal_fit [OF feat rows, of clf h min_proba] fitted size nan member
    by simp
qed

theorem training_set_keeps_tail_rows_witness:
  "build_features ta_const (rising 56) = Inr rising_features
   \<and> length rising_features = 50
   \<and> map snd (training_set rising_features 3) = replicate 47 1 @ [0, 0]
   \<and> fwd_return (map (\<lambda>r. Fin (c_close r)) rising_features) 3 ! 48 = NaN
   \<and> snd (training_set rising_features 3 ! 48) = 0"
proof -
  have rows: "50 \<le> length rising_features"
    by (simp add: rising_features(2))
  have "map snd (training_set rising_features 3) = replicate 47 1 @ [0, 0]"
    by (simp add: training_set_eq rising_features(2,3) length_make_label butlast_append)
  then show ?thesis
    using training_set_keeps_tail_rows [OF rising_features(1) rows, of 3 clf_raises "lit 0.55"]
    by (simp add: rising_features)
qed





text \<open>
  C8. With at least 50 aligned rows and a classifier that returns \<open>proba_up\<close>,
  \<open>price_model_signal\<close> returns \<open>proba_up\<close> with flag 1 if \<open>proba_up \<ge> min_proba\<close>, else
  flag 0 if \<open>1 - proba_up \<ge> min_proba\<close>, the difference being the float the subtraction
  gives, else flag -1; and what \<open>decide_direction\<close> returns is computed from \<open>proba_up\<close>,
  the sentiment and the configuration: the flag does not enter it.
\<close>

theorem price_model_signal_flag:
  assumes feat: "build_features ta df = Inr df_feat"
      and rows: "50 \<le> length (fst (aligned df_feat horizon_bars))"
      and fit: "clf (butlast (fst (aligned df_feat horizon_bars)))
                    (butlast (snd (aligned df_feat horizon_bars)))
                    (last (fst (aligned df_feat horizon_bars))) = Inr proba_up"
  shows "price_model_signal ta clf df horizon_bars min_proba =
           Inr (proba_up,
                if fl_ge proba_up min_proba then 1
                else if fl_ge (f_sub (Fin 1) proba_up) min_proba then 0
                else - 1)
       \<and> (horizon_bars = cfg_get (pred_horizon_bars c) 3
            \<and> min_proba = cfg_get (min_price_model_proba c) (lit 0.55)
            \<and> news_sentiment w (cfg_get (news c) no_news) = Inr s_news
          \<longrightarrow> decide_direction w ta clf df c =
                Inr (side_of c proba_up s_news,
                     \<lparr> diag_proba_up = py_round proba_up 3,
                       diag_news_sent = py_round s_news 3,
                       diag_blended = py_round (blended c proba_up s_news) 3 \<rparr>))"
proof -
  from rows have n: "50 \<le> length df_feat"
    by (simp add: aligned_eq)
  then have "df_feat \<noteq> []" by auto
  then have "last (map x_row df_feat) = x_row (last df_feat)"
    by (simp add: last_map)
  with fit have "clf (butlast (map x_row df_feat))
                     (butlast (make_label (map (\<lambda>r. Fin (c_close r)) df_feat) horizon_bars))
                     (x_row (last df_feat)) = Inr proba_up"
    by (simp add: aligned_eq)
  with price_model_signal_fit [OF feat n, of clf horizon_bars min_proba]
  have signal: "price_model_signal ta clf df horizon_bars min_proba =
                  Inr (proba_up, flag_of proba_up min_proba)"
    by simp
  then show ?thesis
    by (auto simp add: flag_of_def decide_direction_eq)
qed

text \<open>
  Three floats at the thresholds: \<open>0.7\<close> against \<open>0.55\<close> is confident up; \<open>0.45\<close> against
  \<open>0.55\<close> is confident down, for \<open>1 - 0.45\<close> rounds to the float \<open>0.55\<close>; \<open>0.32\<close> against
  \<open>0.68\<close> abstains, for \<open>1 - 0.32\<close> rounds to \<open>0.6799999999999999\<close>.
\<close>

theorem price_model_signal_flag_witness:
  "price_model_signal ta_const (clf_const (lit 0.7)) (rising 56) 3 (lit 0.55)
     = Inr (lit 0.7, 1)
   \<and> price_model_signal ta_const (clf_const (lit 0.45)) (rising 56) 3 (lit 0.55)
       = Inr (lit 0.45, 0)
   \<and> price_model_signal ta_const (clf_const (lit 0.32)) (rising 56) 3 (lit 0.68)
       = Inr (lit 0.32, - 1)"
proof -
  have rows: "50 \<le> length (fst (aligned rising_features 3))"
    by (simp add: aligned_eq rising_features(2))
  have fit: "clf_const p (butlast (fst (aligned rising_features 3)))
               (butlast (snd (aligned rising_features 3)))
               (last (fst (aligned rising_features 3))) = Inr p" for p
    by (simp add: clf_const_def)
  note inst = price_model_signal_flag [where ta = ta_const and df = "rising 56"
      and df_feat = rising_features and horizon_bars = 3, OF rising_features(1) rows]
  have up: "price_model_signal ta_const (clf_const (lit 0.7)) (rising 56) 3 (lit 0.55)
              = Inr (lit 0.7, 1)"
    using inst [where clf = "clf_const (lit 0.7)" and proba_up = "lit 0.7"
                  and min_proba = "lit 0.55", OF fit] lit_values
    by simp
  have down: "price_model_signal ta_const (clf_const (lit 0.45)) (rising 56) 3 (lit 0.55)
                = Inr (lit 0.45, 0)"
    using inst [where clf = "clf_const (lit 0.45)" and proba_up = "lit 0.45"
                  and min_proba = "lit 0.55", OF fit] lit_values scenario_flags(2)
    by simp
  have abstain: "price_model_signal ta_const (clf_const (lit 0.32)) (rising 56) 3 (lit 0.68)
                   = Inr (lit 0.32, - 1)"
    using inst [where clf = "clf_const (lit 0.32)" and proba_up = "lit 0.32"
                  and min_proba = "lit 0.68", OF fit] lit_values scenario_flags(3)
    by simp
  from up down abstain show ?thesis by simp
qed

text \<open>
  C4, amended. Once the price model has returned \<open>proba_up\<close> and the sentiment \<open>s_news\<close>,
  the blender computes \<open>(proba_up - 0.5) * 2\<close> and
  \<open>blended = w_price * price_comp + w_news * s_news\<close> in float arithmetic, reports
  \<open>blended\<close> rounded to three decimals, and its side is \<open>long\<close> exactly when
  \<open>blended \<ge> 0.1\<close>, \<open>proba_up \<ge> min_price_model_proba\<close> and
  \<open>s_news \<ge> min_news_sentiment\<close>. With \<open>proba_up = 0.70\<close>, \<open>s_news = 0.50\<close> and the default
  weights and thresholds, \<open>blended\<close> is \<open>0.43999999999999995\<close>, reported as \<open>0.44\<close>, and the
  side is \<open>long\<close>.
\<close>

theorem decide_direction_long_rule:
  assumes signal: "price_model_signal ta clf df (cfg_get (pred_horizon_bars c) 3)
                     (cfg_get (min_price_model_proba c) (lit 0.55)) = Inr (proba_up, flag)"
      and sentiment: "news_sentiment w (cfg_get (news c) no_news) = Inr s_news"
  shows "\<exists>sd d b.
           decide_direction w ta clf df c = Inr (sd, d)
           \<and> b = f_add (f_mul (cfg_get (blend_weight_price c) (lit 0.6))
                              (f_mul (f_sub proba_up (Fin 0.5)) (Fin 2)))
                       (f_mul (cfg_get (blend_weight_news c) (lit 0.4)) s_news)
           \<and> diag_blended d = py_round b 3
           \<and> (sd = ''long'')
               = (fl_ge b (lit 0.1)
                  \<and> fl_ge proba_up (cfg_get (min_price_model_proba c) (lit 0.55))
                  \<and> fl_ge s_news (cfg_get (min_news_sentiment c) (lit 0.10)))
           \<and> (proba_up = lit 0.70 \<and> s_news = Fin 0.50
                \<and> blend_weight_price c = None \<and> blend_weight_news c = None
                \<and> min_price_model_proba c = None \<and> min_news_sentiment c = None
              \<longrightarrow> b = Fin (990791918021509 / 2251799813685248)
                  \<and> sd = ''long''
                  \<and> d = \<lparr> diag_proba_up = lit 0.7, diag_news_sent = Fin 0.5,
                           diag_blended = lit 0.44 \<rparr>)"
proof (intro exI conjI impI)
  show "decide_direction w ta clf df c =
          Inr (side_of c proba_up s_news,
               \<lparr> diag_proba_up = py_round proba_up 3,
                 diag_news_sent = py_round s_news 3,
                 diag_blended = py_round (blended c proba_up s_news) 3 \<rparr>)"
    using signal sentiment by (rule decide_direction_eq)
  show "blended c proba_up s_news =
          f_add (f_mul (cfg_get (blend_weight_price c) (lit 0.6))
                       (f_mul (f_sub proba_up (Fin 0.5)) (Fin 2)))
                (f_mul (cfg_get (blend_weight_news c) (lit 0.4)) s_news)"
    by (simp add: blended_def price_comp_def)
  show "diag_blended \<lparr> diag_proba_up = py_round proba_up 3,
                       diag_news_sent = py_round s_news 3,
                       diag_blended = py_round (blended c proba_up s_news) 3 \<rparr>
          = py_round (blended c proba_up s_news) 3"
    by simp
  show "(side_of c proba_up s_news = ''long'')
          = (fl_ge (blended c proba_up s_news) (lit 0.1)
             \<and> fl_ge proba_up (cfg_get (min_price_model_proba c) (lit 0.55))
             \<and> fl_ge s_news (cfg_get (min_news_sentiment c) (lit 0.10)))"
    by (simp add: side_of_def)
next
  assume scenario: "proba_up = lit 0.70 \<and> s_news = Fin 0.50
            \<and> blend_weight_price c = None \<and> blend_weight_news c = None
            \<and> min_price_model_proba c = None \<and> min_news_sentiment c = None"
  then have weights: "blend_weight_price c = None" "blend_weight_news c = None"
    by simp_all
  from scenario scenario_blended(1) [OF weights]
  show b: "blended c proba_up s_news = Fin (990791918021509 / 2251799813685248)"
    by simp
  from scenario b lit_values show side: "side_of c proba_up s_news = ''long''"
    by (simp add: side_of_def cfg_get_def)
  from scenario b scenario_rounded
  show "\<lparr> diag_proba_up = py_round proba_up 3, diag_news_sent = py_round s_news 3,
          diag_blended = py_round (blended c proba_up s_news) 3 \<rparr>
        = \<lparr> diag_proba_up = lit 0.7, diag_news_sent = Fin 0.5, diag_blended = lit 0.44 \<rparr>"
    by simp
qed

lemma example_headlines:
  "news_titles (example_world all_keys replies) no_news =
     Inr [''ETH breaks out'', ''Merge anniversary (old)'', ''fees-fall (old)'',
          ''Staking grows'']"
  by (simp add: news_titles_def example_world_def all_keys_def no_news_def cfg_get_def
      getenv_default_def lower_def lower_char_def fetch_news_cryptopanic_def cp_results_def
      example_posts_def example_items_def dict_get_default_def iter_items_def
      item_title_def dict_get_def py_or_def strip_eval item_dt_def
      replace_Z_def example_clock_def mark_old_def)

lemma finbert_reply_score:
  "hf_score_one (example_world env (\<lambda>k. finbert_reply ''positive'' s)) tok k t = Fin s"
  by (simp add: hf_score_one_def example_world_def finbert_reply_def dict_get_def
      py_float_def lower_def lower_char_def)

lemma example_token:
  "getenv_default (example_world all_keys replies) ''HUGGINGFACE_API_TOKEN'' [] = ''hf-token''"
  by (simp add: example_world_def all_keys_def getenv_default_def)

lemma example_mean: "np_mean (example_world env replies) = seq_mean"
  by (simp add: example_world_def)

lemma bullish_sentiment:
  "news_sentiment (example_world all_keys (\<lambda>k. finbert_reply ''positive'' 0.5)) no_news
     = Inr (Fin 0.5)"
  using seq_mean_examples(1)
  by (simp add: news_sentiment_def example_headlines hf_sentiment_finbert_def
      example_token finbert_reply_score example_mean)

theorem decide_direction_long_rule_witness:
  "decide_direction (example_world all_keys (\<lambda>k. finbert_reply ''positive'' 0.5))
     ta_const (clf_const (lit 0.7)) (rising 56) default_cfg =
   Inr (''long'', \<lparr> diag_proba_up = lit 0.7, diag_news_sent = Fin 0.5,
                   diag_blended = lit 0.44 \<rparr>)"
proof -
  have signal: "price_model_signal ta_const (clf_const (lit 0.7)) (rising 56)
                  (cfg_get (pred_horizon_bars default_cfg) 3)
                  (cfg_get (min_price_model_proba default_cfg) (lit 0.55))
                = Inr (lit 0.7, flag_of (lit 0.7) (lit 0.55))"
    by (simp add: rising_signal default_cfg_def cfg_get_def)
  have sentiment: "news_sentiment (example_world all_keys (\<lambda>k. finbert_reply ''positive'' 0.5))
                     (cfg_get (news default_cfg) no_news) = Inr (Fin 0.5)"
    using bullish_sentiment by (simp add: default_cfg_def cfg_get_def)
  from decide_direction_long_rule [OF signal sentiment] show ?thesis
    by (auto simp add: default_cfg_def)
qed

text \<open>
  C4 as stated fails in its figures: at \<open>proba_up = 0.70\<close>, \<open>s_news = 0.50\<close> and the default
  weights, the price component is \<open>0.3999999999999999\<close> and \<open>blended\<close> is
  \<open>0.43999999999999995\<close>, which are not the floats \<open>0.40\<close> and \<open>0.44\<close>.
\<close>

theorem decide_direction_scenario_counterexample:
  "price_comp (lit 0.70) = Fin (900719925474099 / 2251799813685248)
   \<and> price_comp (lit 0.70) \<noteq> lit 0.40
   \<and> blended default_cfg (lit 0.70) (Fin 0.50) = Fin (990791918021509 / 2251799813685248)
   \<and> blended default_cfg (lit 0.70) (Fin 0.50) \<noteq> lit 0.44"
proof -
  have weights: "blend_weight_price default_cfg = None" "blend_weight_news default_cfg = None"
    by (simp_all add: default_cfg_def)
  from scenario_price_comp scenario_blended(1) [OF weights] lit_values
  show ?thesis by simp
qed

text \<open>
  C5. Whenever the aggregate sentiment is exactly 0.0 and the sentiment thresholds
  are on their sides of zero (\<open>min_news_sentiment\<close> positive,
  \<open>max_news_sentiment_for_short\<close> negative, as the defaults 0.10 and -0.10 are, set or left
  out), the decision is \<open>skip\<close>, whatever \<open>proba_up\<close> and the weights are.
\<close>

theorem decide_direction_zero_sentiment_skip:
  assumes signal: "price_model_signal ta clf df (cfg_get (pred_horizon_bars c) 3)
                     (cfg_get (min_price_model_proba c) (lit 0.55)) = Inr (proba_up, flag)"
      and sentiment: "news_sentiment w (cfg_get (news c) no_news) = Inr (Fin 0)"
      and long_gate: "fl_gt (cfg_get (min_news_sentiment c) (lit 0.10)) (Fin 0)"
      and short_gate: "fl_gt (Fin 0)
                         (cfg_get (max_news_sentiment_for_short c) (fl_neg (lit 0.10)))"
  shows "\<exists>d. decide_direction w ta clf df c = Inr (''skip'', d)"
proof -
  from long_gate have "\<not> fl_ge (Fin 0) (cfg_get (min_news_sentiment c) (lit 0.10))"
    by (cases "cfg_get (min_news_sentiment c) (lit 0.10)") simp_all
  moreover from short_gate
  have "\<not> fl_le (Fin 0) (cfg_get (max_news_sentiment_for_short c) (fl_neg (lit 0.10)))"
    by (cases "cfg_get (max_news_sentiment_for_short c) (fl_neg (lit 0.10))")
       (simp_all add: fl_le_def)
  ultimately have "side_of c proba_up (Fin 0) = ''skip''"
    by (simp add: side_of_def)
  with decide_direction_eq [OF signal sentiment] show ?thesis
    by simp
qed

lemma failing_scores:
  "hf_score_one (example_world env (\<lambda>k. Inl RequestError)) tok k t = Fin 0"
  by (simp add: hf_score_one_def example_world_def)

lemma silent_sentiment:
  "news_sentiment (example_world all_keys (\<lambda>k. Inl RequestError)) no_news = Inr (Fin 0)"
  using seq_mean_examples(2)
  by (simp add: news_sentiment_def example_headlines hf_sentiment_finbert_def
      example_token failing_scores example_mean)

theorem decide_direction_zero_sentiment_skip_witness:
  "decide_direction (example_world all_keys (\<lambda>k. Inl RequestError))
     ta_const (clf_const (lit 0.7)) (rising 56) default_cfg =
   Inr (''skip'', \<lparr> diag_proba_up = lit 0.7, diag_news_sent = Fin 0,
                   diag_blended = lit 0.24 \<rparr>)"
proof -
  have signal: "price_model_signal ta_const (clf_const (lit 0.7)) (rising 56)
                  (cfg_get (pred_horizon_bars default_cfg) 3)
                  (cfg_get (min_price_model_proba default_cfg) (lit 0.55))
                = Inr (lit 0.7, flag_of (lit 0.7) (lit 0.55))"
    by (simp add: rising_signal default_cfg_def cfg_get_def)
  have sentiment: "news_sentiment (example_world all_keys (\<lambda>k. Inl RequestError))
                     (cfg_get (news default_cfg) no_news) = Inr (Fin 0)"
    by (simp add: silent_sentiment default_cfg_def cfg_get_def)
  have gates: "fl_gt (cfg_get (min_news_sentiment default_cfg) (lit 0.10)) (Fin 0)"
    "fl_gt (Fin 0) (cfg_get (max_news_sentiment_for_short default_cfg) (fl_neg (lit 0.10)))"
    using lit_values(1) by (simp_all add: default_cfg_def cfg_get_def)
  from decide_direction_zero_sentiment_skip [OF signal sentiment gates]
  obtain d where d: "decide_direction (example_world all_keys (\<lambda>k. Inl RequestError))
     ta_const (clf_const (lit 0.7)) (rising 56) default_cfg = Inr (''skip'', d)"
    by blast
  have weights: "blend_weight_price default_cfg = None" "blend_weight_news default_cfg = None"
    by (simp_all add: default_cfg_def)
  from d decide_direction_eq [OF signal sentiment] scenario_blended(2) [OF weights]
    scenario_rounded
  show ?thesis by simp
qed

subsection \<open>The scoring loop\<close>

lemma hf_loop_length: "length (hf_loop w tok k ts acc) = length acc + length ts"
  by (induction ts arbitrary: k acc) auto

lemma hf_loop_nth_old: "i < length acc \<Longrightarrow> hf_loop w tok k ts acc ! i = acc ! i"
  by (induction ts arbitrary: k acc) (auto simp: nth_append)

lemma hf_loop_nth_new:
  "i < length ts \<Longrightarrow>
   hf_loop w tok k ts acc ! (length acc + i) = hf_score_one w tok (k + i) (ts ! i)"
proof (induction ts arbitrary: k acc i)
  case Nil
  then show ?case by simp
next
  case (Cons t ts)
  show ?case
  proof (cases i)
    case 0
    then show ?thesis
      using hf_loop_nth_old [of "length acc" "acc @ [hf_score_one w tok k t]" w tok "Suc k" ts]
      by simp
  next
    case (Suc j)
    with Cons.prems have "j < length ts" by simp
    from Cons.IH [OF this, of "Suc k" "acc @ [hf_score_one w tok k t]"] Suc
    show ?thesis by simp
  qed
qed

lemma hf_sentiment_finbert_loop:
  "hf_token \<noteq> [] \<Longrightarrow> hf_sentiment_finbert w texts hf_token = hf_loop w hf_token 0 texts []"
  by (cases texts) (simp_all add: hf_sentiment_finbert_def)

lemma hf_sentiment_finbert_nth:
  assumes "hf_token \<noteq> []" and "k < length texts"
  shows "hf_sentiment_finbert w texts hf_token ! k = hf_score_one w hf_token k (texts ! k)"
  using assms hf_loop_nth_new [of k texts w hf_token 0 "[]"]
  by (simp add: hf_sentiment_finbert_loop)

lemma py_float_cong:
  fixes w w' :: world
  assumes "float_of_str w' = float_of_str w"
  shows "py_float w' v = py_float w v"
  using assms by (simp add: py_float_def split: json.splits)

lemma hf_score_cong:
  fixes w w' :: world
  assumes "float_of_str w' = float_of_str w"
  shows "hf_score w' out = hf_score w out"
  by (cases "(w, out)" rule: hf_score.cases)
     (simp_all add: py_float_cong [OF assms] split: json.splits)

lemma hf_score_one_cong:
  fixes w w' :: world
  assumes "hf_post w' k tok t = hf_post w k tok t" and "float_of_str w' = float_of_str w"
  shows "hf_score_one w' tok k t = hf_score_one w tok k t"
proof -
  have "hf_score w' = hf_score w"
    by (rule ext) (rule hf_score_cong [OF assms(2)])
  with assms(1) show ?thesis
    by (simp add: hf_score_one_def)
qed

text \<open>
  C2, amended. With a non-empty API token the score list has the length and the order
  of the input: position \<open>k\<close> holds the score of the \<open>k\<close>-th request alone. It is 0.0 when
  that request fails or its response raises while it is read, and it is the same in
  any world that agrees on the \<open>k\<close>-th request, whatever happens to the others.
\<close>

theorem hf_sentiment_finbert_aligned:
  assumes token: "hf_token \<noteq> []"
  shows "length (hf_sentiment_finbert w texts hf_token) = length texts
       \<and> (\<forall>k < length texts.
            hf_sentiment_finbert w texts hf_token ! k
              = hf_score_one w hf_token k (texts ! k)
            \<and> ((\<exists>e. bind_err (hf_post w k hf_token (texts ! k)) (hf_score w) = Inl e)
                 \<longrightarrow> hf_sentiment_finbert w texts hf_token ! k = Fin 0)
            \<and> (\<forall>w' :: world. hf_post w' k hf_token (texts ! k) = hf_post w k hf_token (texts ! k)
                      \<and> float_of_str w' = float_of_str w
                   \<longrightarrow> hf_sentiment_finbert w' texts hf_token ! k
                         = hf_sentiment_finbert w texts hf_token ! k))"
proof (intro conjI allI impI)
  show "length (hf_sentiment_finbert w texts hf_token) = length texts"
    using token by (simp add: hf_sentiment_finbert_loop hf_loop_length)
next
  fix k assume k: "k < length texts"
  show at_k: "hf_sentiment_finbert w texts hf_token ! k
                = hf_score_one w hf_token k (texts ! k)"
    using token k by (rule hf_sentiment_finbert_nth)
  {
    assume "\<exists>e. bind_err (hf_post w k hf_token (texts ! k)) (hf_score w) = Inl e"
    then have "hf_score_one w hf_token k (texts ! k) = Fin 0"
      by (auto simp add: hf_score_one_def)
    with at_k show "hf_sentiment_finbert w texts hf_token ! k = Fin 0"
      by simp
  }
  {
    fix w' :: world
    assume same: "hf_post w' k hf_token (texts ! k) = hf_post w k hf_token (texts ! k)
                  \<and> float_of_str w' = float_of_str w"
    then have "hf_score_one w' hf_token k (texts ! k) = hf_score_one w hf_token k (texts ! k)"
      by (intro hf_score_one_cong) simp_all
    with at_k hf_sentiment_finbert_nth [OF token k, of w']
    show "hf_sentiment_finbert w' texts hf_token ! k
            = hf_sentiment_finbert w texts hf_token ! k"
      by simp
  }
qed

theorem hf_sentiment_finbert_aligned_witness:
  "hf_sentiment_finbert (example_world all_keys mixed_replies)
     [''ETH breaks out'', ''Merge anniversary (old)'', ''fees-fall (old)'', ''Staking grows'']
     ''hf-token''
   = [Fin 0.5, Fin 0, Fin (- 0.25), Fin 0]
   \<and> hf_post (example_world all_keys mixed_replies) 1 ''hf-token'' ''Merge anniversary (old)''
       = Inl RequestError"
  using hf_sentiment_finbert_aligned [of "''hf-token''" "example_world all_keys mixed_replies"
      "[''ETH breaks out'', ''Merge anniversary (old)'', ''fees-fall (old)'', ''Staking grows'']"]
  by (simp add: hf_sentiment_finbert_def hf_score_one_def example_world_def mixed_replies_def
      finbert_reply_def dict_get_def py_float_def lower_def lower_char_def)

text \<open>
  C2 as stated fails: without a token the scorer returns the empty list for a
  non-empty input.
\<close>

theorem hf_sentiment_finbert_no_token_counterexample:
  "length (hf_sentiment_finbert (example_world all_keys mixed_replies) [''ETH breaks out''] [])
     \<noteq> length [''ETH breaks out'']"
  by (simp add: hf_sentiment_finbert_def)

text \<open>
  C10. When \<^verbatim>\<open>HUGGINGFACE_API_TOKEN\<close> is unset or empty, the scorer returns the empty
  list for every list of texts, and \<open>news_sentiment\<close> returns exactly 0.0 whatever
  headlines the aggregator returned.
\<close>

theorem no_token_zero_sentiment:
  assumes "getenv w ''HUGGINGFACE_API_TOKEN'' = None
           \<or> getenv w ''HUGGINGFACE_API_TOKEN'' = Some []"
  shows "hf_sentiment_finbert w texts (getenv_default w ''HUGGINGFACE_API_TOKEN'' []) = []
       \<and> (\<forall>titles. news_titles w c = Inr titles \<longrightarrow> news_sentiment w c = Inr (Fin 0))"
proof -
  from assms have "getenv_default w ''HUGGINGFACE_API_TOKEN'' [] = []"
    by (auto simp add: getenv_default_def)
  then show ?thesis
    by (simp add: hf_sentiment_finbert_def news_sentiment_def)
qed

lemma example_articles_titles:
  "news_titles (example_world [(''NEWSAPI_KEY'', ''na-key'')] replies) no_news =
     Inr [''Ethereum fund inflows rise'', ''Crypto market steady'']"
  by (simp add: news_titles_def example_world_def no_news_def cfg_get_def
      getenv_default_def lower_def lower_char_def fetch_news_newsapi_def
      example_articles_def old_article_def dict_get_default_def iter_items_def dict_get_def
      py_or_def strip_eval py_take_def)

theorem no_token_zero_sentiment_witness:
  "getenv (example_world [(''NEWSAPI_KEY'', ''na-key'')] mixed_replies)
     ''HUGGINGFACE_API_TOKEN'' = None
   \<and> news_titles (example_world [(''NEWSAPI_KEY'', ''na-key'')] mixed_replies) no_news =
       Inr [''Ethereum fund inflows rise'', ''Crypto market steady'']
   \<and> hf_sentiment_finbert (example_world [(''NEWSAPI_KEY'', ''na-key'')] mixed_replies)
        [''Ethereum fund inflows rise'', ''Crypto market steady'']
        (getenv_default (example_world [(''NEWSAPI_KEY'', ''na-key'')] mixed_replies)
           ''HUGGINGFACE_API_TOKEN'' []) = []
   \<and> news_sentiment (example_world [(''NEWSAPI_KEY'', ''na-key'')] mixed_replies) no_news
       = Inr (Fin 0)"
proof -
  have unset: "getenv (example_world [(''NEWSAPI_KEY'', ''na-key'')] mixed_replies)
                 ''HUGGINGFACE_API_TOKEN'' = None"
    by (simp add: example_world_def)
  then have "getenv (example_world [(''NEWSAPI_KEY'', ''na-key'')] mixed_replies)
                 ''HUGGINGFACE_API_TOKEN'' = None
             \<or> getenv (example_world [(''NEWSAPI_KEY'', ''na-key'')] mixed_replies)
                 ''HUGGINGFACE_API_TOKEN'' = Some []"
    by simp
  from no_token_zero_sentiment [OF this] unset example_articles_titles
  show ?thesis by simp
qed

subsection \<open>The CryptoPanic loop and the limits\<close>

text \<open>
  When the loop returns, its result is the accumulator followed by the first headlines
  of the remaining items, as many as the limit leaves room for, and one at least: the
  limit is tested after a headline has been appended.
\<close>

lemma cp_loop_char:
  assumes "cp_loop w cutoff m items acc = Inr ts"
  shows "ts = acc @ take (nat (max 1 (m - int (length acc))))
                      (List.map_filter (headline_of w cutoff) items)"
  using assms
proof (induction items arbitrary: acc)
  case Nil
  then show ?case by (simp add: List.map_filter_simps)
next
  case (Cons item rest)
  from Cons.prems obtain title where t: "item_title item = Inr title"
    by (cases "item_title item") auto
  show ?case
  proof (cases "title = []")
    case True
    with t have "headline_of w cutoff item = None"
      by (simp add: headline_of_def)
    moreover from Cons.prems t True have "cp_loop w cutoff m rest acc = Inr ts"
      by simp
    ultimately show ?thesis
      using Cons.IH by (simp add: List.map_filter_simps)
  next
    case False
    with Cons.prems t obtain h where h: "mark_old cutoff (item_dt w item) title = Inr h"
      by (cases "mark_old cutoff (item_dt w item) title") auto
    with t False have hd: "headline_of w cutoff item = Some h"
      by (simp add: headline_of_def)
    show ?thesis
    proof (cases "m \<le> int (length acc) + 1")
      case True
      with Cons.prems t False h have "ts = acc @ [h]" by auto
      moreover from True have "nat (max 1 (m - int (length acc))) = 1" by simp
      ultimately show ?thesis
        using hd by (simp add: List.map_filter_simps)
    next
      case far: False
      with Cons.prems t False h have step: "cp_loop w cutoff m rest (acc @ [h]) = Inr ts"
        by auto
      define n where "n = nat (max 1 (m - int (length acc) - 1))"
      from Cons.IH [OF step]
      have "ts = acc @ h # take n (List.map_filter (headline_of w cutoff) rest)"
        by (simp add: n_def algebra_simps)
      moreover from far have "nat (max 1 (m - int (length acc))) = Suc n"
        by (simp add: n_def)
      ultimately show ?thesis
        using hd by (simp add: List.map_filter_simps)
    qed
  qed
qed


lemma fetch_news_cryptopanic_char:
  assumes "fetch_news_cryptopanic w key lb m cur = Inr ts"
      and "key \<noteq> []" and "cp_results w key cur = Some items"
  shows "ts = take (nat (max 1 m))
                (List.map_filter (headline_of w (now_utc w - lb * 3600000000)) items)"
proof -
  from assms have "cp_loop w (now_utc w - lb * 3600000000) m items [] = Inr ts"
    by (simp add: fetch_news_cryptopanic_def)
  from cp_loop_char [OF this] show ?thesis by simp
qed

lemma length_fetch_news_cryptopanic:
  assumes "fetch_news_cryptopanic w key lb m cur = Inr ts" and "1 \<le> m"
  shows "int (length ts) \<le> m"
proof (cases "key = [] \<or> cp_results w key cur = None")
  case True
  with assms have "ts = []"
    by (auto simp add: fetch_news_cryptopanic_def split: if_splits)
  with assms(2) show ?thesis by simp
next
  case False
  then obtain items where "key \<noteq> []" and "cp_results w key cur = Some items" by auto
  from fetch_news_cryptopanic_char [OF assms(1) this] assms(2) show ?thesis by simp
qed

lemma length_py_take: "0 \<le> m \<Longrightarrow> int (length (py_take m xs)) \<le> m"
  by (simp add: py_take_def)

lemma length_fetch_news_newsapi:
  "0 \<le> m \<Longrightarrow> int (length (fetch_news_newsapi w key lb m)) \<le> m"
  by (auto simp add: fetch_news_newsapi_def length_py_take
      split: sum.splits json.splits option.splits)

lemma news_titles_cases:
  assumes "news_titles w c = Inr titles"
  obtains (secondary) "titles = fetch_news_newsapi w (getenv_default w ''NEWSAPI_KEY'' [])
                          (cfg_get (lookback_hours c) 6) (cfg_get (max_headlines c) 12)"
      and "lower (cfg_get (source c) ''cryptopanic'') \<noteq> ''cryptopanic''
           \<or> getenv_default w ''CRYPTOPANIC_API_KEY'' [] = []
           \<or> fetch_news_cryptopanic w (getenv_default w ''CRYPTOPANIC_API_KEY'' [])
                (cfg_get (lookback_hours c) 6) (cfg_get (max_headlines c) 12) ''ETH'' = Inr []"
    | (preferred) "titles \<noteq> []"
      and "lower (cfg_get (source c) ''cryptopanic'') = ''cryptopanic''"
      and "getenv_default w ''CRYPTOPANIC_API_KEY'' [] \<noteq> []"
      and "fetch_news_cryptopanic w (getenv_default w ''CRYPTOPANIC_API_KEY'' [])
             (cfg_get (lookback_hours c) 6) (cfg_get (max_headlines c) 12) ''ETH''
           = Inr titles"
proof (cases "lower (cfg_get (source c) ''cryptopanic'') = ''cryptopanic''
              \<and> getenv_default w ''CRYPTOPANIC_API_KEY'' [] \<noteq> []")
  case False
  with assms have "titles = fetch_news_newsapi w (getenv_default w ''NEWSAPI_KEY'' [])
                     (cfg_get (lookback_hours c) 6) (cfg_get (max_headlines c) 12)"
    by (auto simp add: news_titles_def Let_def fetch_news_newsapi_def split: if_splits)
  with False show ?thesis by (intro secondary) auto
next
  case True
  with assms obtain ts where
    ts: "fetch_news_cryptopanic w (getenv_default w ''CRYPTOPANIC_API_KEY'' [])
           (cfg_get (lookback_hours c) 6) (cfg_get (max_headlines c) 12) ''ETH'' = Inr ts"
    and titles: "titles = (if ts = [] \<and> getenv_default w ''NEWSAPI_KEY'' [] \<noteq> []
                           then fetch_news_newsapi w (getenv_default w ''NEWSAPI_KEY'' [])
                                  (cfg_get (lookback_hours c) 6)
                                  (cfg_get (max_headlines c) 12)
                           else ts)"
    by (auto simp add: news_titles_def Let_def bind_err_def split: sum.splits)
  show ?thesis
  proof (cases "ts = []")
    case True
    with titles have "titles = fetch_news_newsapi w (getenv_default w ''NEWSAPI_KEY'' [])
                     (cfg_get (lookback_hours c) 6) (cfg_get (max_headlines c) 12)"
      by (auto simp add: fetch_news_newsapi_def)
    with ts True show ?thesis by (intro secondary) auto
  next
    case False
    with titles have "titles = ts" by simp
    with ts False True show ?thesis by (intro preferred) auto
  qed
qed

text \<open>
  C6, amended. With a limit of at least 1 the aggregator returns at most
  \<open>max_headlines\<close> headlines. CryptoPanic is asked only when the configured source is
  \<open>cryptopanic\<close> and its key is set; when it is not asked, or yields no headline (a failed
  request among the reasons), the result is what NewsAPI yields, which is nothing
  without a NewsAPI key. Nothing falls back from NewsAPI to CryptoPanic.
\<close>

theorem news_titles_limit_and_fallback:
  fixes w :: world
  assumes lookback: "lookback = cfg_get (lookback_hours c) 6"
      and maxh: "maxh = cfg_get (max_headlines c) 12"
      and positive: "1 \<le> maxh"
      and cp_key: "cp_key = getenv_default w ''CRYPTOPANIC_API_KEY'' []"
      and na_key: "na_key = getenv_default w ''NEWSAPI_KEY'' []"
      and returned: "news_titles w c = Inr titles"
  shows "int (length titles) \<le> maxh
       \<and> (lower (cfg_get (source c) ''cryptopanic'') \<noteq> ''cryptopanic'' \<or> cp_key = []
            \<or> fetch_news_cryptopanic w cp_key lookback maxh ''ETH'' = Inr []
          \<longrightarrow> titles = fetch_news_newsapi w na_key lookback maxh)
       \<and> (titles \<noteq> fetch_news_newsapi w na_key lookback maxh
          \<longrightarrow> fetch_news_cryptopanic w cp_key lookback maxh ''ETH'' = Inr titles)
       \<and> ((\<exists>e. cryptopanic_get w cp_key ''ETH'' = Inl e)
          \<longrightarrow> fetch_news_cryptopanic w cp_key lookback maxh ''ETH'' = Inr [])
       \<and> fetch_news_newsapi w [] lookback maxh = []"
proof (intro conjI impI)
  from returned show "int (length titles) \<le> maxh"
  proof (cases rule: news_titles_cases)
    case secondary
    with positive maxh show ?thesis
      using length_fetch_news_newsapi [of maxh w "getenv_default w ''NEWSAPI_KEY'' []"
          "cfg_get (lookback_hours c) 6"]
      by simp
  next
    case preferred
    with positive maxh show ?thesis
      using length_fetch_news_cryptopanic [of w "getenv_default w ''CRYPTOPANIC_API_KEY'' []"
          "cfg_get (lookback_hours c) 6" maxh "''ETH''" titles]
      by simp
  qed
next
  assume "lower (cfg_get (source c) ''cryptopanic'') \<noteq> ''cryptopanic'' \<or> cp_key = []
            \<or> fetch_news_cryptopanic w cp_key lookback maxh ''ETH'' = Inr []"
  with returned show "titles = fetch_news_newsapi w na_key lookback maxh"
    by (cases rule: news_titles_cases) (auto simp add: lookback maxh cp_key na_key)
next
  assume "titles \<noteq> fetch_news_newsapi w na_key lookback maxh"
  with returned show "fetch_news_cryptopanic w cp_key lookback maxh ''ETH'' = Inr titles"
    by (cases rule: news_titles_cases) (auto simp add: lookback maxh cp_key na_key)
next
  assume "\<exists>e. cryptopanic_get w cp_key ''ETH'' = Inl e"
  then show "fetch_news_cryptopanic w cp_key lookback maxh ''ETH'' = Inr []"
    by (auto simp add: fetch_news_cryptopanic_def cp_results_def)
next
  show "fetch_news_newsapi w [] lookback maxh = []"
    by (simp add: fetch_news_newsapi_def)
qed

lemma example_newsapi:
  "fetch_news_newsapi (example_world env replies) ''na-key'' 6 12
     = [''Ethereum fund inflows rise'', ''Crypto market steady'']"
  by (simp add: example_world_def fetch_news_newsapi_def example_articles_def
      old_article_def dict_get_default_def iter_items_def dict_get_def py_or_def strip_eval py_take_def)

theorem news_titles_limit_and_fallback_witness:
  "news_titles (example_world [(''NEWSAPI_KEY'', ''na-key'')] mixed_replies) no_news
     = Inr [''Ethereum fund inflows rise'', ''Crypto market steady'']
   \<and> getenv_default (example_world [(''NEWSAPI_KEY'', ''na-key'')] mixed_replies)
        ''CRYPTOPANIC_API_KEY'' [] = []
   \<and> fetch_news_newsapi (example_world [(''NEWSAPI_KEY'', ''na-key'')] mixed_replies)
        ''na-key'' 6 12
       = [''Ethereum fund inflows rise'', ''Crypto market steady'']
   \<and> int (length [''Ethereum fund inflows rise'', ''Crypto market steady'']) \<le> 12"
proof -
  let ?w = "example_world [(''NEWSAPI_KEY'', ''na-key'')] mixed_replies"
  have cfg: "cfg_get (lookback_hours no_news) 6 = 6" "cfg_get (max_headlines no_news) 12 = 12"
    by (simp_all add: no_news_def cfg_get_def)
  have keys: "getenv_default ?w ''CRYPTOPANIC_API_KEY'' [] = []"
             "getenv_default ?w ''NEWSAPI_KEY'' [] = ''na-key''"
    by (simp_all add: example_world_def getenv_default_def)
  from news_titles_limit_and_fallback [where w = ?w and c = no_news and lookback = 6
      and maxh = 12 and cp_key = "[]" and na_key = "''na-key''"
      and titles = "[''Ethereum fund inflows rise'', ''Crypto market steady'']"]
    cfg keys example_articles_titles [of mixed_replies]
    example_newsapi [of "[(''NEWSAPI_KEY'', ''na-key'')]" mixed_replies]
  show ?thesis by simp
qed

text \<open>
  C6 as stated fails where the configured source is not CryptoPanic: NewsAPI is then
  the only source asked. Here its key is missing, so it yields nothing; CryptoPanic
  would yield four headlines, and the aggregator returns none.
\<close>

theorem news_titles_no_fallback_counterexample:
  "lower (cfg_get (source (news_cfg None (Some ''newsapi''))) ''cryptopanic'') = ''newsapi''
   \<and> fetch_news_newsapi (example_world [(''CRYPTOPANIC_API_KEY'', ''cp-key'')] mixed_replies)
        (getenv_default (example_world [(''CRYPTOPANIC_API_KEY'', ''cp-key'')] mixed_replies)
           ''NEWSAPI_KEY'' []) 6 12 = []
   \<and> fetch_news_cryptopanic (example_world [(''CRYPTOPANIC_API_KEY'', ''cp-key'')] mixed_replies)
        (getenv_default (example_world [(''CRYPTOPANIC_API_KEY'', ''cp-key'')] mixed_replies)
           ''CRYPTOPANIC_API_KEY'' []) 6 12 ''ETH''
       = Inr [''ETH breaks out'', ''Merge anniversary (old)'', ''fees-fall (old)'',
              ''Staking grows'']
   \<and> news_titles (example_world [(''CRYPTOPANIC_API_KEY'', ''cp-key'')] mixed_replies)
        (news_cfg None (Some ''newsapi'')) = Inr []"
  by (simp add: news_titles_def example_world_def news_cfg_def cfg_get_def
      getenv_default_def lower_def lower_char_def fetch_news_cryptopanic_def cp_results_def
      fetch_news_newsapi_def example_posts_def example_items_def dict_get_default_def
      iter_items_def item_title_def dict_get_def py_or_def strip_eval item_dt_def
      replace_Z_def example_clock_def mark_old_def)

text \<open>
  The limit at zero: the CryptoPanic loop tests the limit after it has appended, so a
  limit of 0 still lets one headline through, where the NewsAPI slice returns none.
\<close>

lemma news_titles_zero_limit:
  "news_titles (example_world all_keys mixed_replies) (news_cfg (Some 0) None)
     = Inr [''ETH breaks out'']
   \<and> fetch_news_newsapi (example_world all_keys mixed_replies) ''na-key'' 6 0 = []"
  by (simp add: news_titles_def example_world_def all_keys_def news_cfg_def cfg_get_def
      getenv_default_def lower_def lower_char_def fetch_news_cryptopanic_def cp_results_def
      fetch_news_newsapi_def example_posts_def example_items_def example_articles_def
      old_article_def dict_get_default_def iter_items_def item_title_def dict_get_def
      py_or_def strip_eval item_dt_def replace_Z_def example_clock_def
      mark_old_def py_take_def)









end
